theory Spec2Isabelle
  imports Complex_Main "HOL-Library.Sublist" "HOL-Library.Signed_Division"
begin

text \<open>
  A shallow embedding of the header-only logger of \<^verbatim>\<open>logger_cpp11.hpp\<close> and
  \<^verbatim>\<open>logger_cpp23.hpp\<close>: the severity table, the class \<open>Logger\<close> that assembles one line
  and writes it when it is destroyed, the log macros with their build-time toggle
  \<^verbatim>\<open>NDEBUG\<close>, and the class \<open>ScopeLogger\<close> that brackets a block with a start and a leave
  record. Each header is embedded on its own, function by function; what the code
  reads from its environment (the two clocks, the time zone, the number of exceptions
  in flight, the memory that its string views point into) and what it writes (the
  insertions into \<^verbatim>\<open>std::clog\<close>) is explicit state.
\<close>

section \<open>Text primitives\<close>

text \<open>
  The escape character (octal 033) that starts every ANSI sequence in the sources.
\<close>

definition ESC :: char where
  "ESC = CHR 0x1B"

text \<open>
  Decimal rendering of integers, as \<^verbatim>\<open>operator<<\<close> of an output stream in the classic
  locale and \<^verbatim>\<open>std::format("{}")\<close> produce it: no grouping, a leading minus sign for
  negative values.
\<close>

definition digit_char :: "nat \<Rightarrow> char" where
  "digit_char d = ''0123456789'' ! (d mod 10)"

fun show_nat :: "nat \<Rightarrow> string" where
  "show_nat n = (if n < 10 then [digit_char n] else show_nat (n div 10) @ [digit_char (n mod 10)])"

declare show_nat.simps [simp del]

definition show_int :: "int \<Rightarrow> string" where
  "show_int i = (if i < 0 then CHR ''-'' # show_nat (nat (- i)) else show_nat (nat i))"

text \<open>
  \<^verbatim>\<open>std::setw(w) << std::setfill(c)\<close> applied to the next insertion, with the default
  right adjustment: the fill characters go in front, and a text that is already
  \<open>w\<close> wide or wider is inserted unchanged.
\<close>

definition setw_setfill :: "nat \<Rightarrow> char \<Rightarrow> string \<Rightarrow> string" where
  "setw_setfill w c s = replicate (w - length s) c @ s"

section \<open>The severity model\<close>

text \<open>
  \<^verbatim>\<open>enum class Level { Trace, Debug, Info, Notice, Warning, Error, Critical, Alert,
  Emergency, Profile };\<close> is the same in both headers. The enumerators are a datatype;
  a value of the enumeration type is its underlying \<^verbatim>\<open>int\<close>, which can hold values
  that no enumerator names (\<^verbatim>\<open>static_cast<Level>(42)\<close>), and the \<^verbatim>\<open>switch\<close>
  statements of the sources decide on that underlying value.
\<close>

datatype Level =
  Trace | Debug | Info | Notice | Warning | Error | Critical | Alert | Emergency | Profile

fun Level_value :: "Level \<Rightarrow> int" where
  "Level_value Trace = 0"
| "Level_value Debug = 1"
| "Level_value Info = 2"
| "Level_value Notice = 3"
| "Level_value Warning = 4"
| "Level_value Error = 5"
| "Level_value Critical = 6"
| "Level_value Alert = 7"
| "Level_value Emergency = 8"
| "Level_value Profile = 9"

subsection \<open>logger\_cpp11.hpp\<close>

definition cpp11_colorCode :: "int \<Rightarrow> string" where
  "cpp11_colorCode level =
    (if level = Level_value Trace then ESC # ''[1;37m''
     else if level = Level_value Debug then ESC # ''[1;34m''
     else if level = Level_value Info then ESC # ''[1;32m''
     else if level = Level_value Notice then ESC # ''[1;36m''
     else if level = Level_value Warning then ESC # ''[1;33m''
     else if level = Level_value Error then ESC # ''[1;31m''
     else if level = Level_value Critical then ESC # ''[1;35m''
     else if level = Level_value Alert then ESC # ''[1;41m''
     else if level = Level_value Emergency then ESC # ''[1;41;97m''
     else if level = Level_value Profile then ESC # ''[1;36m''
     else ESC # ''[0m'')"

definition cpp11_levelLabel :: "int \<Rightarrow> string" where
  "cpp11_levelLabel level =
    (if level = Level_value Trace then ''  TRACE  ''
     else if level = Level_value Debug then ''  DEBUG  ''
     else if level = Level_value Info then ''  INFO   ''
     else if level = Level_value Notice then '' NOTICE  ''
     else if level = Level_value Warning then '' WARNING ''
     else if level = Level_value Error then ''  ERROR  ''
     else if level = Level_value Critical then ''CRITICAL ''
     else if level = Level_value Alert then ''  ALERT  ''
     else if level = Level_value Emergency then ''EMERGENCY''
     else if level = Level_value Profile then ''PROFILING''
     else '' UNKNOWN '')"

subsection \<open>logger\_cpp23.hpp\<close>

definition cpp23_colorCode :: "int \<Rightarrow> string" where
  "cpp23_colorCode level =
    (if level = Level_value Trace then ESC # ''[1;37m''
     else if level = Level_value Debug then ESC # ''[1;34m''
     else if level = Level_value Info then ESC # ''[1;32m''
     else if level = Level_value Notice then ESC # ''[1;36m''
     else if level = Level_value Warning then ESC # ''[1;33m''
     else if level = Level_value Error then ESC # ''[1;31m''
     else if level = Level_value Critical then ESC # ''[1;35m''
     else if level = Level_value Alert then ESC # ''[1;41m''
     else if level = Level_value Emergency then ESC # ''[1;41;97m''
     else if level = Level_value Profile then ESC # ''[1;36m''
     else ESC # ''[0m'')"

definition cpp23_levelLabel :: "int \<Rightarrow> string" where
  "cpp23_levelLabel level =
    (if level = Level_value Trace then ''  TRACE  ''
     else if level = Level_value Debug then ''  DEBUG  ''
     else if level = Level_value Info then ''  INFO   ''
     else if level = Level_value Notice then '' NOTICE  ''
     else if level = Level_value Warning then '' WARNING ''
     else if level = Level_value Error then ''  ERROR  ''
     else if level = Level_value Critical then ''CRITICAL ''
     else if level = Level_value Alert then ''  ALERT  ''
     else if level = Level_value Emergency then ''EMERGENCY''
     else if level = Level_value Profile then ''PROFILING''
     else '' UNKNOWN '')"

section \<open>The environment of a log statement\<close>

text \<open>
  The fields of \<^verbatim>\<open>std::tm\<close> that the conversion \<^verbatim>\<open>%T\<close> reads.
\<close>

record tm =
  tm_sec :: int
  tm_min :: int
  tm_hour :: int

text \<open>
  What the code reads from and writes to outside itself:
  \<^item> \<open>clog\<close>: the insertions made into \<^verbatim>\<open>std::clog\<close> so far, oldest first, one
    element for each \<^verbatim>\<open>operator<<\<close> applied to the stream;
  \<^item> \<open>system_clock_now\<close>: the reading of \<^verbatim>\<open>std::chrono::system_clock::now()\<close>, as
    nanoseconds since the epoch (the code casts it to milliseconds and to seconds,
    rounding towards zero);
  \<^item> \<open>localtime_r\<close>: the conversion of a \<^verbatim>\<open>time_t\<close> to local broken-down time
    (\<^verbatim>\<open>localtime_s\<close> on Windows);
  \<^item> \<open>steady_clock_now\<close>: the reading of \<^verbatim>\<open>std::chrono::steady_clock::now()\<close>, in
    nanoseconds (the code casts differences to microseconds);
  \<^item> \<open>uncaught_exceptions\<close>: the value of \<^verbatim>\<open>std::uncaught_exceptions()\<close>, the number
    of exceptions thrown and not yet caught in the current thread;
  \<^item> \<open>storage\<close>: the characters that the memory of the program holds, by address. The
    code reads it through its \<^verbatim>\<open>std::string_view\<close>s and never writes to it; the
    calling program may.
  The record is extensible: the rest of the state of the calling program lives in its
  extension.
\<close>

record world =
  clog :: "string list"
  system_clock_now :: int
  localtime_r :: "int \<Rightarrow> tm"
  steady_clock_now :: int
  uncaught_exceptions :: nat
  storage :: "nat \<Rightarrow> char"

text \<open>
  A \<^verbatim>\<open>std::string_view\<close>: the address of its first character (\<^verbatim>\<open>data()\<close>) and its
  length (\<^verbatim>\<open>size()\<close>). It owns no characters: what it shows, each time it is read, is
  what the storage holds at its addresses at that time.
\<close>

record string_view =
  view_data :: nat
  view_size :: nat

definition viewed :: "'a world_scheme \<Rightarrow> string_view \<Rightarrow> string" where
  "viewed w v = map (storage w) [view_data v ..< view_data v + view_size v]"

text \<open>
  \<^verbatim>\<open>std::uncaught_exception()\<close> of C++11 is true exactly when an exception is in flight.
\<close>

definition uncaught_exception :: "'a world_scheme \<Rightarrow> bool" where
  "uncaught_exception w = (0 < uncaught_exceptions w)"

text \<open>
  \<^verbatim>\<open>std::put_time(&tm, "%T")\<close>: the conversion \<^verbatim>\<open>%T\<close> is \<^verbatim>\<open>%H:%M:%S\<close>, each
  field a decimal number of two digits, padded with a zero.
\<close>

definition put_time_T :: "tm \<Rightarrow> string" where
  "put_time_T t =
     setw_setfill 2 CHR ''0'' (show_int (tm_hour t)) @ '':'' @
     setw_setfill 2 CHR ''0'' (show_int (tm_min t)) @ '':'' @
     setw_setfill 2 CHR ''0'' (show_int (tm_sec t))"

text \<open>
  A \<^verbatim>\<open>double\<close> in fixed notation with \<open>p\<close> digits after the point, as
  \<^verbatim>\<open>std::fixed << std::setprecision(p)\<close> and the presentation type \<^verbatim>\<open>f\<close> of
  \<^verbatim>\<open>std::format\<close> print it: the value rounded to \<open>p\<close> decimal digits. The \<^verbatim>\<open>double\<close> is
  idealised as a real number; for an elapsed time below \<open>2 ^ 52\<close> microseconds the
  quotient \<^verbatim>\<open>elapsed_us / 1000.0\<close> is near enough to the exact one that both print the
  same three digits.
\<close>

definition fixed :: "nat \<Rightarrow> real \<Rightarrow> string" where
  "fixed p x =
     (let a = nat \<bar>round (x * 10 ^ p)\<bar>
      in (if x < 0 then ''-'' else []) @ show_nat (a div 10 ^ p) @
         (if p = 0 then [] else ''.'' @ setw_setfill p CHR ''0'' (show_nat (a mod 10 ^ p))))"

text \<open>
  \<^verbatim>\<open>std::format\<close>, for the arguments and the replacement fields of the source: a
  string view and an unsigned integer in a field \<^verbatim>\<open>{}\<close>, a \<^verbatim>\<open>double\<close> in a field with
  the presentation type \<^verbatim>\<open>f\<close>, whose precision is the number after the point of the
  format specification (six when there is none). The text outside the fields is
  copied, and each field takes the next argument.
\<close>

datatype format_arg = Text string | Unsigned nat | Double real

fun decimal_value :: "nat \<Rightarrow> string \<Rightarrow> nat" where
  "decimal_value acc [] = acc"
| "decimal_value acc (c # cs) =
     (if c \<in> set ''0123456789'' then decimal_value (acc * 10 + (of_char c - 48)) cs else acc)"

definition precision_of :: "string \<Rightarrow> nat" where
  "precision_of spec =
     (case dropWhile (\<lambda>c. c \<noteq> CHR ''.'') spec of
        [] \<Rightarrow> 6
      | _ # ds \<Rightarrow> decimal_value 0 ds)"

fun format_field :: "string \<Rightarrow> format_arg \<Rightarrow> string" where
  "format_field spec (Text s) = s"
| "format_field spec (Unsigned n) = show_nat n"
| "format_field spec (Double x) = fixed (precision_of spec) x"

fun std_format :: "string \<Rightarrow> format_arg list \<Rightarrow> string"
  and replacement_field :: "string \<Rightarrow> string \<Rightarrow> format_arg list \<Rightarrow> string" where
  "std_format [] args = []"
| "std_format (c # cs) args =
     (if c = CHR ''{'' then replacement_field [] cs args else c # std_format cs args)"
| "replacement_field spec [] args = []"
| "replacement_field spec (c # cs) args =
     (if c = CHR ''}''
      then (case args of
              [] \<Rightarrow> std_format cs []
            | a # as \<Rightarrow> format_field spec a @ std_format cs as)
      else replacement_field (spec @ [c]) cs args)"

text \<open>
  An expression streamed into a \<open>Logger\<close>: evaluated in a state of the program, it
  yields the text that \<^verbatim>\<open>operator<<\<close> renders for its value, and the state it leaves.
\<close>

type_synonym 'a expr = "'a world_scheme \<Rightarrow> string \<times> 'a world_scheme"

text \<open>
  The data members of the two classes. \<open>m_stream\<close> is the text held by the
  \<^verbatim>\<open>std::ostringstream\<close>. \<open>m_tag\<close> and \<open>m_file_name\<close> are \<^verbatim>\<open>std::string\<close>s in
  \<^verbatim>\<open>logger_cpp11.hpp\<close>, which own a copy of their characters, and
  \<^verbatim>\<open>std::string_view\<close>s in \<^verbatim>\<open>logger_cpp23.hpp\<close>. \<open>m_line\<close> is an \<^verbatim>\<open>int\<close> in
  \<^verbatim>\<open>logger_cpp11.hpp\<close> and a \<^verbatim>\<open>uint32_t\<close> in \<^verbatim>\<open>logger_cpp23.hpp\<close>; no arithmetic is
  done on it, and it is modelled by an integer and by a natural number. \<open>m_start\<close> is a
  reading of the steady clock.
\<close>

record Logger =
  m_stream :: string

record ('text, 'line) ScopeLogger =
  m_tag :: 'text
  m_file_name :: 'text
  m_line :: 'line
  m_start :: int

section \<open>logger\_cpp11.hpp\<close>

subsection \<open>class Logger\<close>

definition cpp11_timestamp :: "'a world_scheme \<Rightarrow> string" where
  "cpp11_timestamp w =
     (let now = system_clock_now w;
          ms = (now sdiv 1000000) smod 1000;
          itt = now sdiv 1000000000;
          tm = localtime_r w itt
      in put_time_T tm @ ''.'' @ setw_setfill 3 CHR ''0'' (show_int ms))"

definition cpp11_Logger_ctor :: "'a world_scheme \<Rightarrow> int \<Rightarrow> string \<Rightarrow> Logger" where
  "cpp11_Logger_ctor w level category =
     (let s0 = ''['' @ cpp11_timestamp w @ '']['' @ cpp11_colorCode level @
               cpp11_levelLabel level @ ESC # ''[0m]'';
          s1 = (if category \<noteq> [] then s0 @ ''['' @ category @ '']'' else s0)
      in \<lparr>m_stream = s1 @ '' ''\<rparr>)"

definition cpp11_Logger_dtor :: "Logger \<Rightarrow> 'a world_scheme \<Rightarrow> 'a world_scheme" where
  "cpp11_Logger_dtor this w =
     (let this' = this\<lparr>m_stream := m_stream this @ ESC # ''[0m''\<rparr>
      in w\<lparr>clog := clog w @ [m_stream this', [CHR 0x0A]]\<rparr>)"

text \<open>
  \<^verbatim>\<open>template <typename T> Logger &operator<<(const T &value)\<close>. The rendering of a
  \<open>T\<close> by \<^verbatim>\<open>m_stream << value\<close> is not code of this repository: it is the parameter
  \<open>render\<close>.
\<close>

definition cpp11_Logger_shl :: "('t \<Rightarrow> string) \<Rightarrow> Logger \<Rightarrow> 't \<Rightarrow> Logger" where
  "cpp11_Logger_shl render this v = this\<lparr>m_stream := m_stream this @ render v\<rparr>"

subsection \<open>The log macros\<close>

text \<open>
  A statement \<^verbatim>\<open>log_xxx(category) << e1 << ... << en;\<close>. Each streamed expression is
  evaluated in the state of the program, which it may change, and yields the text that
  \<^verbatim>\<open>operator<<\<close> appends; the expressions are taken from left to right. The temporary
  \<open>Logger\<close> is destroyed at the end of the statement.
\<close>

fun cpp11_stream_all :: "Logger \<Rightarrow> 'a expr list \<Rightarrow> 'a world_scheme \<Rightarrow> Logger \<times> 'a world_scheme" where
  "cpp11_stream_all this [] w = (this, w)"
| "cpp11_stream_all this (e # es) w =
     (case e w of (v, w') \<Rightarrow> cpp11_stream_all (cpp11_Logger_shl id this v) es w')"

definition cpp11_Logger_statement ::
    "int \<Rightarrow> string \<Rightarrow> 'a expr list \<Rightarrow> 'a world_scheme \<Rightarrow> 'a world_scheme" where
  "cpp11_Logger_statement level category es w =
     (case cpp11_stream_all (cpp11_Logger_ctor w level category) es w of
        (this, w') \<Rightarrow> cpp11_Logger_dtor this w')"

text \<open>
  The ten macros \<^verbatim>\<open>log_trace\<close>, ..., \<^verbatim>\<open>log_profiling\<close>, indexed by their enumerator.
  With \<^verbatim>\<open>NDEBUG\<close> defined the macro is
  \<^verbatim>\<open>if (true) {} else log::Logger(log::Level::Xxx, #__VA_ARGS__)\<close>, otherwise it is the
  \<open>Logger\<close> expression alone. \<open>category\<close> is the stringified macro argument.
\<close>

definition cpp11_log :: "bool \<Rightarrow> Level \<Rightarrow> string \<Rightarrow> 'a expr list \<Rightarrow> 'a world_scheme \<Rightarrow> 'a world_scheme" where
  "cpp11_log NDEBUG l category es w =
     (if NDEBUG
      then (if True then w else cpp11_Logger_statement (Level_value l) category es w)
      else cpp11_Logger_statement (Level_value l) category es w)"

subsection \<open>class ScopeLogger\<close>

definition cpp11_ScopeLogger_ctor ::
    "bool \<Rightarrow> string \<Rightarrow> string \<Rightarrow> int \<Rightarrow> 'a world_scheme \<Rightarrow> (string, int) ScopeLogger \<times> 'a world_scheme" where
  "cpp11_ScopeLogger_ctor NDEBUG tag file line w =
     (let this = \<lparr>m_tag = tag, m_file_name = file, m_line = line, m_start = steady_clock_now w\<rparr>;
          oss = ''START '' @ m_tag this @ '' @ '' @ m_file_name this @ '':'' @ show_int (m_line this)
      in (this, cpp11_log NDEBUG Profile [] [\<lambda>s. (oss, s)] w))"

definition cpp11_ScopeLogger_dtor :: "bool \<Rightarrow> (string, int) ScopeLogger \<Rightarrow> 'a world_scheme \<Rightarrow> 'a world_scheme" where
  "cpp11_ScopeLogger_dtor NDEBUG this w =
     (let now = steady_clock_now w;
          elapsed_us = (now - m_start this) sdiv 1000;
          duration_ms = real_of_int elapsed_us / 1000;
          leave_message = (if uncaught_exception w then ''EXCEPTION!'' else ''FINISH'');
          oss = leave_message @ '' '' @ m_tag this @ '' ('' @ fixed 3 duration_ms @ ''ms)'' @
                '' @ '' @ m_file_name this @ '':'' @ show_int (m_line this)
      in cpp11_log NDEBUG Profile [] [\<lambda>s. (oss, s)] w)"

section \<open>logger\_cpp23.hpp\<close>

subsection \<open>class Logger\<close>

definition cpp23_timestamp :: "'a world_scheme \<Rightarrow> string" where
  "cpp23_timestamp w =
     (let now = system_clock_now w;
          ms = (now sdiv 1000000) smod 1000;
          itt = now sdiv 1000000000;
          tm = localtime_r w itt
      in put_time_T tm @ ''.'' @ setw_setfill 3 CHR ''0'' (show_int ms))"

definition cpp23_Logger_ctor :: "'a world_scheme \<Rightarrow> int \<Rightarrow> string \<Rightarrow> Logger" where
  "cpp23_Logger_ctor w level category =
     (let s0 = ''['' @ cpp23_timestamp w @ '']['' @ cpp23_colorCode level @
               cpp23_levelLabel level @ ESC # ''[0m]'';
          s1 = (if category \<noteq> [] then s0 @ ''['' @ category @ '']'' else s0)
      in \<lparr>m_stream = s1 @ '' ''\<rparr>)"

definition cpp23_Logger_dtor :: "Logger \<Rightarrow> 'a world_scheme \<Rightarrow> 'a world_scheme" where
  "cpp23_Logger_dtor this w =
     (let this' = this\<lparr>m_stream := m_stream this @ ESC # ''[0m''\<rparr>
      in w\<lparr>clog := clog w @ [m_stream this', [CHR 0x0A]]\<rparr>)"

definition cpp23_Logger_shl :: "('t \<Rightarrow> string) \<Rightarrow> Logger \<Rightarrow> 't \<Rightarrow> Logger" where
  "cpp23_Logger_shl render this v = this\<lparr>m_stream := m_stream this @ render v\<rparr>"

subsection \<open>The log macros\<close>

fun cpp23_stream_all :: "Logger \<Rightarrow> 'a expr list \<Rightarrow> 'a world_scheme \<Rightarrow> Logger \<times> 'a world_scheme" where
  "cpp23_stream_all this [] w = (this, w)"
| "cpp23_stream_all this (e # es) w =
     (case e w of (v, w') \<Rightarrow> cpp23_stream_all (cpp23_Logger_shl id this v) es w')"

definition cpp23_Logger_statement ::
    "int \<Rightarrow> string \<Rightarrow> 'a expr list \<Rightarrow> 'a world_scheme \<Rightarrow> 'a world_scheme" where
  "cpp23_Logger_statement level category es w =
     (case cpp23_stream_all (cpp23_Logger_ctor w level category) es w of
        (this, w') \<Rightarrow> cpp23_Logger_dtor this w')"

definition cpp23_log :: "bool \<Rightarrow> Level \<Rightarrow> string \<Rightarrow> 'a expr list \<Rightarrow> 'a world_scheme \<Rightarrow> 'a world_scheme" where
  "cpp23_log NDEBUG l category es w =
     (if NDEBUG
      then (if True then w else cpp23_Logger_statement (Level_value l) category es w)
      else cpp23_Logger_statement (Level_value l) category es w)"

subsection \<open>class ScopeLogger\<close>

text \<open>
  \<^verbatim>\<open>std::source_location\<close>, with the two members the constructor reads.
  \<open>location_file_name\<close> is the view that \<open>m_file_name\<close> is initialised with: the
  characters from the address that \<^verbatim>\<open>file_name()\<close> returns up to the terminating null
  character.

  The constructor stores the two views, not the characters. The \<^verbatim>\<open>START\<close> record
  shows what they view when the constructor runs, and the destructor reads them again:
  its record shows what the storage holds at that time.
\<close>

record source_location =
  location_file_name :: string_view
  location_line :: nat

definition cpp23_ScopeLogger_ctor ::
    "bool \<Rightarrow> string_view \<Rightarrow> source_location \<Rightarrow> 'a world_scheme \<Rightarrow>
     (string_view, nat) ScopeLogger \<times> 'a world_scheme" where
  "cpp23_ScopeLogger_ctor NDEBUG tag location w =
     (let this = \<lparr>m_tag = tag, m_file_name = location_file_name location,
                  m_line = location_line location, m_start = steady_clock_now w\<rparr>
      in (this,
          cpp23_log NDEBUG Profile []
            [\<lambda>s. (std_format ''START {} @ {}:{}''
                     [Text (viewed s (m_tag this)), Text (viewed s (m_file_name this)),
                      Unsigned (m_line this)], s)] w))"

definition cpp23_ScopeLogger_dtor :: "bool \<Rightarrow> (string_view, nat) ScopeLogger \<Rightarrow> 'a world_scheme \<Rightarrow> 'a world_scheme" where
  "cpp23_ScopeLogger_dtor NDEBUG this w =
     (let now = steady_clock_now w;
          elapsed_us = (now - m_start this) sdiv 1000;
          duration_ms = real_of_int elapsed_us / 1000;
          leave_message = (if uncaught_exceptions w = 0 then ''FINISH'' else ''EXCEPTION!'')
      in cpp23_log NDEBUG Profile []
           [\<lambda>s. (std_format ''{} {} ({:0.3f}ms) @ {}:{}''
                    [Text leave_message, Text (viewed s (m_tag this)), Double duration_ms,
                     Text (viewed s (m_file_name this)), Unsigned (m_line this)], s)] w)"

section \<open>Lifetime of a ScopeLogger\<close>

subsection \<open>The defaulted move constructors\<close>

text \<open>
  \<^verbatim>\<open>ScopeLogger(ScopeLogger &&) = default;\<close> moves member by member and yields the new
  object together with the object moved from, which stays alive until its own
  destructor runs. In \<^verbatim>\<open>logger_cpp11.hpp\<close> the two \<^verbatim>\<open>std::string\<close> members of the source
  are left valid but unspecified (\<open>tag'\<close> and \<open>file'\<close>, empty in the usual
  implementations); in \<^verbatim>\<open>logger_cpp23.hpp\<close> the views are copied and the source keeps
  them. Both headers delete the copy constructor and the copy assignment: the model
  has no operation that copies a \<open>ScopeLogger\<close>.
\<close>

definition cpp11_ScopeLogger_move_ctor ::
    "string \<Rightarrow> string \<Rightarrow> (string, int) ScopeLogger \<Rightarrow> (string, int) ScopeLogger \<times> (string, int) ScopeLogger" where
  "cpp11_ScopeLogger_move_ctor tag' file' other =
     (\<lparr>m_tag = m_tag other, m_file_name = m_file_name other, m_line = m_line other,
       m_start = m_start other\<rparr>,
      other\<lparr>m_tag := tag', m_file_name := file'\<rparr>)"

definition cpp23_ScopeLogger_move_ctor :: "(string_view, nat) ScopeLogger \<Rightarrow> (string_view, nat) ScopeLogger \<times> (string_view, nat) ScopeLogger" where
  "cpp23_ScopeLogger_move_ctor other =
     (\<lparr>m_tag = m_tag other, m_file_name = m_file_name other, m_line = m_line other,
       m_start = m_start other\<rparr>,
      other)"

subsection \<open>Leaving the block of an automatic object\<close>

text \<open>
  The rest of a block, after the declaration of an automatic object, either completes
  (\<open>Inr\<close>) or exits by an exception (\<open>Inl\<close>). Either way the object's destructor runs.
  When the block is left by an exception the destructor runs during stack unwinding,
  where \<^verbatim>\<open>std::uncaught_exceptions()\<close> counts the exception in flight.
\<close>

definition destroy_automatic ::
    "('a world_scheme \<Rightarrow> 'a world_scheme) \<Rightarrow> 'e + 'r \<Rightarrow> 'a world_scheme \<Rightarrow> 'a world_scheme" where
  "destroy_automatic dtor r w =
     (case r of
        Inr _ \<Rightarrow> dtor w
      | Inl _ \<Rightarrow>
          (dtor (w\<lparr>uncaught_exceptions := Suc (uncaught_exceptions w)\<rparr>))
            \<lparr>uncaught_exceptions := uncaught_exceptions w\<rparr>)"

text \<open>
  A block that declares an automatic \<open>ScopeLogger\<close> and goes on with \<open>rest\<close>: the
  constructor runs, then the rest of the block, then the destructor.
\<close>

definition cpp11_ScopeLogger_block ::
    "bool \<Rightarrow> string \<Rightarrow> string \<Rightarrow> int \<Rightarrow> ('a world_scheme \<Rightarrow> ('e + 'r) \<times> 'a world_scheme) \<Rightarrow>
     'a world_scheme \<Rightarrow> ('e + 'r) \<times> 'a world_scheme" where
  "cpp11_ScopeLogger_block NDEBUG tag file line rest w =
     (case cpp11_ScopeLogger_ctor NDEBUG tag file line w of (this, w1) \<Rightarrow>
      case rest w1 of (r, w2) \<Rightarrow>
        (r, destroy_automatic (cpp11_ScopeLogger_dtor NDEBUG this) r w2))"

definition cpp23_ScopeLogger_block ::
    "bool \<Rightarrow> string_view \<Rightarrow> source_location \<Rightarrow> ('a world_scheme \<Rightarrow> ('e + 'r) \<times> 'a world_scheme) \<Rightarrow>
     'a world_scheme \<Rightarrow> ('e + 'r) \<times> 'a world_scheme" where
  "cpp23_ScopeLogger_block NDEBUG tag location rest w =
     (case cpp23_ScopeLogger_ctor NDEBUG tag location w of (this, w1) \<Rightarrow>
      case rest w1 of (r, w2) \<Rightarrow>
        (r, destroy_automatic (cpp23_ScopeLogger_dtor NDEBUG this) r w2))"

text \<open>
  The macro \<^verbatim>\<open>log_profile\<close> at the head of the rest of a block. With \<^verbatim>\<open>NDEBUG\<close> it
  expands to nothing. Otherwise it declares an automatic \<open>ScopeLogger\<close>, in
  \<^verbatim>\<open>logger_cpp11.hpp\<close> from \<^verbatim>\<open>#tag, __FILE__, __LINE__\<close>, in \<^verbatim>\<open>logger_cpp23.hpp\<close> from
  \<^verbatim>\<open>#__VA_ARGS__\<close> and the default argument \<^verbatim>\<open>std::source_location::current()\<close>.
\<close>

definition cpp11_log_profile ::
    "bool \<Rightarrow> string \<Rightarrow> string \<Rightarrow> int \<Rightarrow> ('a world_scheme \<Rightarrow> ('e + 'r) \<times> 'a world_scheme) \<Rightarrow>
     'a world_scheme \<Rightarrow> ('e + 'r) \<times> 'a world_scheme" where
  "cpp11_log_profile NDEBUG tag file line rest w =
     (if NDEBUG then rest w else cpp11_ScopeLogger_block NDEBUG tag file line rest w)"

definition cpp23_log_profile ::
    "bool \<Rightarrow> string_view \<Rightarrow> source_location \<Rightarrow> ('a world_scheme \<Rightarrow> ('e + 'r) \<times> 'a world_scheme) \<Rightarrow>
     'a world_scheme \<Rightarrow> ('e + 'r) \<times> 'a world_scheme" where
  "cpp23_log_profile NDEBUG tag location rest w =
     (if NDEBUG then rest w else cpp23_ScopeLogger_block NDEBUG tag location rest w)"

text \<open>
  A block that constructs a \<open>ScopeLogger\<close>, move-constructs a second one from it and
  ends: the two automatic objects are destroyed in the reverse order of their
  construction.
\<close>

definition cpp11_block_with_move ::
    "bool \<Rightarrow> string \<Rightarrow> string \<Rightarrow> string \<Rightarrow> string \<Rightarrow> int \<Rightarrow> 'a world_scheme \<Rightarrow> 'a world_scheme" where
  "cpp11_block_with_move NDEBUG tag' file' tag file line w =
     (case cpp11_ScopeLogger_ctor NDEBUG tag file line w of (a, w1) \<Rightarrow>
      case cpp11_ScopeLogger_move_ctor tag' file' a of (b, a') \<Rightarrow>
        cpp11_ScopeLogger_dtor NDEBUG a' (cpp11_ScopeLogger_dtor NDEBUG b w1))"

definition cpp23_block_with_move ::
    "bool \<Rightarrow> string_view \<Rightarrow> source_location \<Rightarrow> 'a world_scheme \<Rightarrow> 'a world_scheme" where
  "cpp23_block_with_move NDEBUG tag location w =
     (case cpp23_ScopeLogger_ctor NDEBUG tag location w of (a, w1) \<Rightarrow>
      case cpp23_ScopeLogger_move_ctor a of (b, a') \<Rightarrow>
        cpp23_ScopeLogger_dtor NDEBUG a' (cpp23_ScopeLogger_dtor NDEBUG b w1))"

subsection \<open>Allocation failure inside the destructor\<close>

text \<open>
  Both destructors are declared \<^verbatim>\<open>noexcept\<close> and contain no handler; the destructor of
  \<open>Logger\<close> is \<^verbatim>\<open>noexcept\<close> by default. Reading the clocks and
  \<^verbatim>\<open>std::uncaught_exception(s)\<close> cannot fail. What can fail while a record is put
  together is an allocation, in two kinds of operation:
  \<^item> a formatted insertion into a \<^verbatim>\<open>std::ostringstream\<close>, which may have to grow the
    buffer. An exception thrown inside a formatted output function is caught by that
    function, which sets \<^verbatim>\<open>badbit\<close> and returns (the streams of the source keep the
    default exception mask). The characters stored before the failure stay in the
    buffer, and every later insertion into that stream does nothing;
  \<^item> the making of a \<^verbatim>\<open>std::string\<close>: \<^verbatim>\<open>str()\<close> and \<^verbatim>\<open>std::format\<close> return one by
    value. A failure there is thrown as \<^verbatim>\<open>std::bad_alloc\<close>.
  Constructing an empty \<^verbatim>\<open>std::ostringstream\<close> and inserting into \<^verbatim>\<open>std::clog\<close> are
  taken not to fail.

  The allocator is an input of the model: a schedule with one entry for each insertion
  into a stream that is still good and for each \<^verbatim>\<open>std::string\<close> made, in the order of
  execution. \<open>No_fault\<close> lets the operation succeed; \<open>Bad_alloc k\<close> makes its allocation
  fail, for an insertion after \<open>k\<close> characters of the inserted text have been stored.
  When the schedule is used up, every later operation succeeds.
\<close>

datatype exn = bad_alloc







text \<open>
  How a statement or a call ends: it returns, an exception leaves it, or
  \<^verbatim>\<open>std::terminate\<close> has been called. An exception that reaches the boundary of a
  \<^verbatim>\<open>noexcept\<close> function calls \<^verbatim>\<open>std::terminate\<close>. Whether the stack is unwound before
  that is implementation-defined; here it is not, so the objects alive at that point
  are not destroyed.
\<close>

datatype outcome = Returns | Propagates exn | Terminates

definition noexcept :: "outcome \<times> 's \<Rightarrow> outcome \<times> 's" where
  "noexcept r = (case fst r of Propagates e \<Rightarrow> (Terminates, snd r) | _ \<Rightarrow> r)"














section \<open>The table of section 4.1 of the specification\<close>

text \<open>
  The specification gives each level a label and names its colour (``bright white'',
  ``red background'', ``red background, bright white text''). To compare the escape
  sequences of the code with those names, the sequences are read as ECMA-48 ``select
  graphic rendition'' sequences: \<open>0\<close> resets, \<open>1\<close> is bold (increased intensity),
  \<open>30\<close> to \<open>37\<close> select the foreground colour, \<open>40\<close> to \<open>47\<close> the background colour
  and \<open>90\<close> to \<open>97\<close> the bright foreground colours.
\<close>

datatype colour = Black | Red | Green | Yellow | Blue | Magenta | Cyan | White

record rendition =
  bold :: bool
  foreground :: "(colour \<times> bool) option"
  background :: "colour option"

definition default_rendition :: rendition where
  "default_rendition = \<lparr>bold = False, foreground = None, background = None\<rparr>"

definition colour_of :: "nat \<Rightarrow> colour" where
  "colour_of n = [Black, Red, Green, Yellow, Blue, Magenta, Cyan, White] ! (n mod 8)"

definition select_rendition :: "rendition \<Rightarrow> nat \<Rightarrow> rendition" where
  "select_rendition r n =
     (if n = 0 then default_rendition
      else if n = 1 then r\<lparr>bold := True\<rparr>
      else if 30 \<le> n \<and> n \<le> 37 then r\<lparr>foreground := Some (colour_of (n - 30), False)\<rparr>
      else if 40 \<le> n \<and> n \<le> 47 then r\<lparr>background := Some (colour_of (n - 40))\<rparr>
      else if 90 \<le> n \<and> n \<le> 97 then r\<lparr>foreground := Some (colour_of (n - 90), True)\<rparr>
      else r)"

text \<open>The parameters between \<^verbatim>\<open>ESC [\<close> and the final \<^verbatim>\<open>m\<close>, separated by semicolons.\<close>

fun sgr_parameters :: "nat \<Rightarrow> string \<Rightarrow> nat list" where
  "sgr_parameters acc [] = [acc]"
| "sgr_parameters acc (c # cs) =
     (if c = CHR '';'' then acc # sgr_parameters 0 cs
      else sgr_parameters (acc * 10 + (of_char c - 48)) cs)"

definition rendition_of :: "string \<Rightarrow> rendition option" where
  "rendition_of s =
     (case s of
        e # b # rest \<Rightarrow>
          (if e = ESC \<and> b = CHR ''['' \<and> rest \<noteq> [] \<and> last rest = CHR ''m''
           then Some (foldl select_rendition default_rendition (sgr_parameters 0 (butlast rest)))
           else None)
      | _ \<Rightarrow> None)"

datatype color_semantic =
  Bright colour | Background colour | Background_bright_text colour colour

definition bright_text :: "rendition \<Rightarrow> colour \<Rightarrow> bool" where
  "bright_text r c =
     (foreground r = Some (c, True) \<or> (bold r \<and> foreground r = Some (c, False)))"

fun displays :: "rendition \<Rightarrow> color_semantic \<Rightarrow> bool" where
  "displays r (Bright c) = (bright_text r c \<and> background r = None)"
| "displays r (Background c) = (background r = Some c \<and> foreground r = None)"
| "displays r (Background_bright_text b c) = (background r = Some b \<and> bright_text r c)"

definition escape_shows :: "string \<Rightarrow> color_semantic \<Rightarrow> bool" where
  "escape_shows s sem = (case rendition_of s of None \<Rightarrow> False | Some r \<Rightarrow> displays r sem)"

fun table_label :: "Level \<Rightarrow> string" where
  "table_label Trace = ''  TRACE  ''"
| "table_label Debug = ''  DEBUG  ''"
| "table_label Info = ''  INFO   ''"
| "table_label Notice = '' NOTICE  ''"
| "table_label Warning = '' WARNING ''"
| "table_label Error = ''  ERROR  ''"
| "table_label Critical = ''CRITICAL ''"
| "table_label Alert = ''  ALERT  ''"
| "table_label Emergency = ''EMERGENCY''"
| "table_label Profile = ''PROFILING''"

fun table_color :: "Level \<Rightarrow> color_semantic" where
  "table_color Trace = Bright White"
| "table_color Debug = Bright Blue"
| "table_color Info = Bright Green"
| "table_color Notice = Bright Cyan"
| "table_color Warning = Bright Yellow"
| "table_color Error = Bright Red"
| "table_color Critical = Bright Magenta"
| "table_color Alert = Background Red"
| "table_color Emergency = Background_bright_text Red White"
| "table_color Profile = Bright Cyan"

section \<open>The formats of the specification\<close>

text \<open>
  \<^verbatim>\<open>HH:MM:SS.mmm\<close>: two digits for the hour, the minute and the second, three for the
  milliseconds, each padded with zeros.
\<close>

definition two_digits :: "nat \<Rightarrow> string" where
  "two_digits n = [digit_char (n div 10), digit_char (n mod 10)]"

definition three_digits :: "nat \<Rightarrow> string" where
  "three_digits n = [digit_char (n div 100), digit_char (n div 10 mod 10), digit_char (n mod 10)]"

definition HH_MM_SS_mmm :: "nat \<Rightarrow> nat \<Rightarrow> nat \<Rightarrow> nat \<Rightarrow> string" where
  "HH_MM_SS_mmm h m s ms =
     two_digits h @ '':'' @ two_digits m @ '':'' @ two_digits s @ ''.'' @ three_digits ms"

text \<open>
  What \<^verbatim>\<open>localtime_r\<close> promises of the fields read here (a second of 60 is a leap
  second).
\<close>

definition valid_tm :: "tm \<Rightarrow> bool" where
  "valid_tm t =
     (0 \<le> tm_hour t \<and> tm_hour t \<le> 23 \<and> 0 \<le> tm_min t \<and> tm_min t \<le> 59 \<and>
      0 \<le> tm_sec t \<and> tm_sec t \<le> 60)"

text \<open>The characters a timestamp is made of.\<close>

definition timestamp_chars :: "char set" where
  "timestamp_chars = set ''-0123456789:.''"

text \<open>
  A duration of \<open>us\<close> microseconds shown in milliseconds with exactly three decimal
  digits.
\<close>

definition milliseconds_3 :: "nat \<Rightarrow> string" where
  "milliseconds_3 us = show_nat (us div 1000) @ ''.'' @ three_digits (us mod 1000)"

text \<open>
  The header \<^verbatim>\<open>[<timestamp>][<color><label><reset>]\<close>, the segment \<^verbatim>\<open>[<category>]\<close> of a
  category that is not empty, and one space.
\<close>

definition header :: "string \<Rightarrow> string \<Rightarrow> string \<Rightarrow> string \<Rightarrow> string" where
  "header ts color label category =
     ''['' @ ts @ '']['' @ color @ label @ ESC # ''[0m'' @ '']'' @
     (if category = [] then [] else ''['' @ category @ '']'') @ '' ''"

text \<open>The number of places of a text at which a given segment starts.\<close>

fun occurrences :: "string \<Rightarrow> string \<Rightarrow> nat" where
  "occurrences p [] = (if p = [] then 1 else 0)"
| "occurrences p (c # cs) = (if prefix p (c # cs) then 1 else 0) + occurrences p cs"

text \<open>A streamed expression without side effects, such as a string literal.\<close>

definition yields :: "string \<Rightarrow> 'a expr" where
  "yields v w = (v, w)"

text \<open>
  The texts of a list of streamed expressions, evaluated from left to right, and the
  state they leave.
\<close>

fun evaluate_all :: "'a expr list \<Rightarrow> 'a world_scheme \<Rightarrow> string list \<times> 'a world_scheme" where
  "evaluate_all [] w = ([], w)"
| "evaluate_all (e # es) w =
     (case e w of (v, w') \<Rightarrow> case evaluate_all es w' of (vs, w'') \<Rightarrow> (v # vs, w''))"

text \<open>
  One Profile-level record as it reaches the diagnostic stream: the line, made of the
  header with the label \<^verbatim>\<open>PROFILING\<close> in bright cyan and no category, the message and
  the reset sequence, and then the newline.
\<close>

definition profile_record :: "string \<Rightarrow> string \<Rightarrow> string list" where
  "profile_record ts message =
     [header ts (ESC # ''[1;36m'') ''PROFILING'' [] @ message @ ESC # ''[0m'', [CHR 0x0A]]"

definition start_message :: "string \<Rightarrow> string \<Rightarrow> string \<Rightarrow> string" where
  "start_message tag file line = ''START '' @ tag @ '' @ '' @ file @ '':'' @ line"

definition leave_message :: "string \<Rightarrow> string \<Rightarrow> string \<Rightarrow> string \<Rightarrow> string \<Rightarrow> string" where
  "leave_message leave tag duration file line =
     leave @ '' '' @ tag @ '' ('' @ duration @ ''ms) @ '' @ file @ '':'' @ line"

section \<open>Concrete inputs\<close>

text \<open>
  A state of the environment: nothing written yet, the system clock at
  1700000045.005 seconds after the epoch, local time equal to UTC, the steady clock at
  one second, no exception in flight, and a memory that holds the characters
  \<^verbatim>\<open>load\<close> from address 100 and \<^verbatim>\<open>main.cpp\<close> from address 200.
\<close>

definition utc :: "int \<Rightarrow> tm" where
  "utc t = \<lparr>tm_sec = t mod 60, tm_min = t div 60 mod 60, tm_hour = t div 3600 mod 24\<rparr>"

definition example_storage :: "nat \<Rightarrow> char" where
  "example_storage a =
     (if 100 \<le> a \<and> a < 104 then ''load'' ! (a - 100)
      else if 200 \<le> a \<and> a < 208 then ''main.cpp'' ! (a - 200)
      else CHR 0x00)"

definition example_world :: world where
  "example_world =
     \<lparr>clog = [], system_clock_now = 1700000045005000000, localtime_r = utc,
      steady_clock_now = 1000000000, uncaught_exceptions = 0, storage = example_storage\<rparr>"

text \<open>The views of the two texts in that memory, and a source location made of them.\<close>

definition example_tag :: string_view where
  "example_tag = \<lparr>view_data = 100, view_size = 4\<rparr>"

definition example_file_name :: string_view where
  "example_file_name = \<lparr>view_data = 200, view_size = 8\<rparr>"

text \<open>The same state 2.5 milliseconds later on both clocks.\<close>

definition example_world_later :: world where
  "example_world_later =
     example_world\<lparr>system_clock_now := 1700000045007500000, steady_clock_now := 1002500000\<rparr>"

text \<open>
  A program state with a counter, and a streamed expression \<^verbatim>\<open>++counter\<close> that
  increments it and yields its new value.
\<close>

record counting = world +
  counter :: nat

definition example_counting :: counting where
  "example_counting =
     \<lparr>clog = [], system_clock_now = 1700000045005000000, localtime_r = utc,
      steady_clock_now = 1000000000, uncaught_exceptions = 0, storage = example_storage,
      counter = 0\<rparr>"

definition increment :: "\<lparr>counter :: nat\<rparr> expr" where
  "increment w = (show_nat (Suc (counter w)), w\<lparr>counter := Suc (counter w)\<rparr>)"



definition example_location :: source_location where
  "example_location = \<lparr>location_file_name = example_file_name, location_line = 42\<rparr>"

text \<open>
  The rest of a block that takes 2.5 milliseconds and writes nothing: one that
  completes and one that throws.
\<close>

definition elapse :: "world \<Rightarrow> world" where
  "elapse w =
     w\<lparr>system_clock_now := system_clock_now w + 2500000,
       steady_clock_now := steady_clock_now w + 2500000\<rparr>"

definition rest_completes :: "world \<Rightarrow> (exn + unit) \<times> world" where
  "rest_completes w = (Inr (), elapse w)"

definition rest_throws :: "world \<Rightarrow> (exn + unit) \<times> world" where
  "rest_throws w = (Inl bad_alloc, elapse w)"

text \<open>
  The rest of a block that takes 2.5 milliseconds, writes the character \<^verbatim>\<open>X\<close> to
  address 100 and completes: the statement \<^verbatim>\<open>tag[0] = 'X';\<close> of a caller whose
  \<^verbatim>\<open>std::string tag\<close> keeps its characters there.
\<close>

definition rest_overwrites :: "world \<Rightarrow> (exn + unit) \<times> world" where
  "rest_overwrites w = (Inr (), (elapse w)\<lparr>storage := (storage w)(100 := CHR ''X'')\<rparr>)"

section \<open>Auxiliary facts\<close>

subsection \<open>Decimal digits and padding\<close>

lemma precision_3 [simp]: "precision_of '':0.3f'' = 3"
  by (simp add: precision_of_def)

lemma format_start:
  "std_format ''START {} @ {}:{}'' [Text tag, Text file, Unsigned n] =
     ''START '' @ tag @ '' @ '' @ file @ '':'' @ show_nat n"
  by simp

lemma format_leave:
  "std_format ''{} {} ({:0.3f}ms) @ {}:{}'' [Text leave, Text tag, Double x, Text file, Unsigned n] =
     leave @ '' '' @ tag @ '' ('' @ fixed 3 x @ ''ms) @ '' @ file @ '':'' @ show_nat n"
  by simp

lemma digit_char_0: "digit_char 0 = CHR ''0''"
  by (simp add: digit_char_def)

lemma show_nat_1: "n < 10 \<Longrightarrow> show_nat n = [digit_char n]"
  by (subst show_nat.simps) simp

lemma show_nat_2: "10 \<le> n \<Longrightarrow> n < 100 \<Longrightarrow> show_nat n = [digit_char (n div 10), digit_char (n mod 10)]"
  by (subst show_nat.simps) (simp add: show_nat_1)

lemma show_nat_3:
  "100 \<le> n \<Longrightarrow> n < 1000 \<Longrightarrow>
   show_nat n = [digit_char (n div 100), digit_char (n div 10 mod 10), digit_char (n mod 10)]"
proof -
  assume n: "100 \<le> n" "n < 1000"
  then have d: "10 \<le> n div 10" "n div 10 < 100" by auto
  have e: "n div 10 div 10 = n div 100" by (simp add: div_mult2_eq[symmetric])
  have "show_nat n = show_nat (n div 10) @ [digit_char (n mod 10)]"
    using n by (subst show_nat.simps) simp
  then show ?thesis
    using show_nat_2[OF d] by (simp add: e)
qed

lemma pad2: "n < 100 \<Longrightarrow> setw_setfill 2 CHR ''0'' (show_nat n) = two_digits n"
proof -
  assume n: "n < 100"
  show ?thesis
  proof (cases "n < 10")
    case True
    then show ?thesis
      by (simp add: setw_setfill_def two_digits_def digit_char_0 show_nat_1)
  next
    case False
    with n show ?thesis
      by (simp add: setw_setfill_def two_digits_def show_nat_2)
  qed
qed

lemma pad3: "n < 1000 \<Longrightarrow> setw_setfill 3 CHR ''0'' (show_nat n) = three_digits n"
proof -
  assume n: "n < 1000"
  consider "n < 10" | "10 \<le> n" "n < 100" | "100 \<le> n" by linarith
  then show ?thesis
  proof cases
    case 1
    then show ?thesis
      by (simp add: setw_setfill_def three_digits_def digit_char_0 numeral_3_eq_3 show_nat_1)
  next
    case 2
    then show ?thesis
      by (simp add: setw_setfill_def three_digits_def show_nat_2 digit_char_0)
  next
    case 3
    with n show ?thesis
      by (simp add: setw_setfill_def three_digits_def show_nat_3)
  qed
qed

lemma show_int_nonneg: "0 \<le> i \<Longrightarrow> show_int i = show_nat (nat i)"
  by (simp add: show_int_def)

lemma sdiv_nonneg: "0 \<le> (a::int) \<Longrightarrow> 0 < b \<Longrightarrow> a sdiv b = a div b"
  by (simp add: signed_divide_int_def sgn_if)

lemma smod_nonneg: "0 \<le> (a::int) \<Longrightarrow> 0 < b \<Longrightarrow> a smod b = a mod b"
  by (simp add: signed_modulo_int_def sgn_if)

lemma put_time_T_valid:
  assumes "0 \<le> tm_hour t" "tm_hour t \<le> 23" "0 \<le> tm_min t" "tm_min t \<le> 59"
          "0 \<le> tm_sec t" "tm_sec t \<le> 60"
  shows "put_time_T t =
         two_digits (nat (tm_hour t)) @ '':'' @ two_digits (nat (tm_min t)) @ '':'' @
         two_digits (nat (tm_sec t))"
  using assms by (simp add: put_time_T_def show_int_nonneg pad2)

lemma cpp11_timestamp_valid:
  assumes "0 \<le> system_clock_now w"
      and "t = localtime_r w (system_clock_now w div 1000000000)"
      and "0 \<le> tm_hour t" "tm_hour t \<le> 23" "0 \<le> tm_min t" "tm_min t \<le> 59"
          "0 \<le> tm_sec t" "tm_sec t \<le> 60"
  shows "cpp11_timestamp w =
         HH_MM_SS_mmm (nat (tm_hour t)) (nat (tm_min t)) (nat (tm_sec t))
           (nat (system_clock_now w div 1000000 mod 1000))"
proof -
  let ?ms = "system_clock_now w div 1000000 mod 1000"
  have ms: "0 \<le> ?ms" "nat ?ms < 1000" by simp_all
  have a: "(system_clock_now w sdiv 1000000) smod 1000 = ?ms"
    using assms(1) by (simp add: sdiv_nonneg smod_nonneg pos_imp_zdiv_nonneg_iff)
  have b: "system_clock_now w sdiv 1000000000 = system_clock_now w div 1000000000"
    using assms(1) by (simp add: sdiv_nonneg)
  show ?thesis
    unfolding cpp11_timestamp_def Let_def a b assms(2)[symmetric] HH_MM_SS_mmm_def
    using assms(3-) ms
    by (simp add: put_time_T_valid show_int_nonneg pad3)
qed

subsection \<open>The two headers define the same Logger\<close>

lemma cpp23_colorCode_eq: "cpp23_colorCode = cpp11_colorCode"
  by (rule ext) (simp add: cpp23_colorCode_def cpp11_colorCode_def)

lemma cpp23_levelLabel_eq: "cpp23_levelLabel = cpp11_levelLabel"
  by (rule ext) (simp add: cpp23_levelLabel_def cpp11_levelLabel_def)

lemma cpp23_timestamp_eq: "cpp23_timestamp w = cpp11_timestamp w"
  by (simp add: cpp23_timestamp_def cpp11_timestamp_def)

lemma cpp23_Logger_ctor_eq: "cpp23_Logger_ctor w level category = cpp11_Logger_ctor w level category"
  by (simp add: cpp23_Logger_ctor_def cpp11_Logger_ctor_def cpp23_timestamp_eq
      cpp23_colorCode_eq cpp23_levelLabel_eq)

lemma cpp23_Logger_dtor_eq: "cpp23_Logger_dtor this w = cpp11_Logger_dtor this w"
  by (simp add: cpp23_Logger_dtor_def cpp11_Logger_dtor_def)

lemma cpp23_Logger_shl_eq: "cpp23_Logger_shl render this v = cpp11_Logger_shl render this v"
  by (simp add: cpp23_Logger_shl_def cpp11_Logger_shl_def)

lemma cpp23_stream_all_eq: "cpp23_stream_all this es w = cpp11_stream_all this es w"
  by (induction es arbitrary: this w) (simp_all add: cpp23_Logger_shl_eq split: prod.splits)

lemma cpp23_Logger_statement_eq:
  "cpp23_Logger_statement level category es w = cpp11_Logger_statement level category es w"
  by (simp add: cpp23_Logger_statement_def cpp11_Logger_statement_def cpp23_stream_all_eq
      cpp23_Logger_ctor_eq cpp23_Logger_dtor_eq)

lemma cpp23_log_eq: "cpp23_log NDEBUG l category es w = cpp11_log NDEBUG l category es w"
  by (simp add: cpp23_log_def cpp11_log_def cpp23_Logger_statement_eq)

lemma cpp11_stream_all_evaluate:
  "cpp11_stream_all this es w =
     (case evaluate_all es w of (vs, w') \<Rightarrow> (this\<lparr>m_stream := m_stream this @ concat vs\<rparr>, w'))"
  by (induction es arbitrary: this w) (simp_all add: cpp11_Logger_shl_def split: prod.splits)

lemma cpp11_Logger_ctor_header:
  "m_stream (cpp11_Logger_ctor w level category) =
     header (cpp11_timestamp w) (cpp11_colorCode level) (cpp11_levelLabel level) category"
  by (simp add: cpp11_Logger_ctor_def header_def)

lemma cpp11_Logger_statement_line:
  "cpp11_Logger_statement level category es w =
     (case evaluate_all es w of
        (vs, w') \<Rightarrow>
          w'\<lparr>clog := clog w' @
            [header (cpp11_timestamp w) (cpp11_colorCode level) (cpp11_levelLabel level) category @
             concat vs @ ESC # ''[0m'', [CHR 0x0A]]\<rparr>)"
  by (simp add: cpp11_Logger_statement_def cpp11_stream_all_evaluate cpp11_Logger_dtor_def
      cpp11_Logger_ctor_header split: prod.splits)

lemma cpp11_log_profiling_active:
  "cpp11_log False Profile [] [\<lambda>s. (message s, s)] w =
     w\<lparr>clog := clog w @ profile_record (cpp11_timestamp w) (message w)\<rparr>"
  by (simp add: cpp11_log_def cpp11_Logger_statement_line profile_record_def
      cpp11_colorCode_def cpp11_levelLabel_def)

lemma cpp11_log_inert: "cpp11_log True l category es w = w"
  by (simp add: cpp11_log_def)

lemma cpp11_timestamp_update [simp]:
  "cpp11_timestamp (w\<lparr>clog := c\<rparr>) = cpp11_timestamp w"
  "cpp11_timestamp (w\<lparr>uncaught_exceptions := u\<rparr>) = cpp11_timestamp w"
  "cpp11_timestamp (w\<lparr>storage := m\<rparr>) = cpp11_timestamp w"
  by (simp_all add: cpp11_timestamp_def)

lemma viewed_update [simp]:
  "viewed (w\<lparr>clog := c\<rparr>) v = viewed w v"
  "viewed (w\<lparr>uncaught_exceptions := u\<rparr>) v = viewed w v"
  by (simp_all add: viewed_def)

subsection \<open>The records of a ScopeLogger\<close>

lemma fixed_microseconds:
  "fixed 3 (real_of_int (int us) / 1000) = milliseconds_3 us"
proof -
  have "us mod 1000 < 1000" by simp
  then show ?thesis
    by (simp add: fixed_def milliseconds_3_def pad3)
qed

lemma cpp11_ScopeLogger_ctor_active:
  "cpp11_ScopeLogger_ctor False tag file line w =
     (\<lparr>m_tag = tag, m_file_name = file, m_line = line, m_start = steady_clock_now w\<rparr>,
      w\<lparr>clog := clog w @ profile_record (cpp11_timestamp w) (start_message tag file (show_int line))\<rparr>)"
  by (simp add: cpp11_ScopeLogger_ctor_def cpp11_log_profiling_active start_message_def)

lemma cpp11_ScopeLogger_dtor_active:
  "cpp11_ScopeLogger_dtor False this w =
     w\<lparr>clog := clog w @ profile_record (cpp11_timestamp w)
        (leave_message (if 0 < uncaught_exceptions w then ''EXCEPTION!'' else ''FINISH'')
           (m_tag this)
           (fixed 3 (real_of_int ((steady_clock_now w - m_start this) sdiv 1000) / 1000))
           (m_file_name this) (show_int (m_line this)))\<rparr>"
  by (simp add: cpp11_ScopeLogger_dtor_def cpp11_log_profiling_active leave_message_def
      uncaught_exception_def Let_def)

lemma show_int_int: "show_int (int n) = show_nat n"
  by (simp add: show_int_def)

lemma cpp23_ScopeLogger_ctor_eq:
  "cpp23_ScopeLogger_ctor NDEBUG tag \<lparr>location_file_name = file, location_line = n\<rparr> w =
     (\<lparr>m_tag = tag, m_file_name = file, m_line = n, m_start = steady_clock_now w\<rparr>,
      snd (cpp11_ScopeLogger_ctor NDEBUG (viewed w tag) (viewed w file) (int n) w))"
  by (cases NDEBUG)
     (simp_all add: cpp23_ScopeLogger_ctor_def cpp11_ScopeLogger_ctor_def cpp23_log_eq
        show_int_int cpp11_log_inert cpp11_log_profiling_active Let_def)

lemma cpp23_ScopeLogger_dtor_eq:
  "cpp23_ScopeLogger_dtor NDEBUG \<lparr>m_tag = tag, m_file_name = file, m_line = n, m_start = s\<rparr> w =
   cpp11_ScopeLogger_dtor NDEBUG
     \<lparr>m_tag = viewed w tag, m_file_name = viewed w file, m_line = int n, m_start = s\<rparr> w"
  by (cases NDEBUG)
     (simp_all add: cpp23_ScopeLogger_dtor_def cpp11_ScopeLogger_dtor_def cpp23_log_eq
        show_int_int cpp11_log_inert cpp11_log_profiling_active Let_def uncaught_exception_def)

subsection \<open>Values that no enumerator names\<close>

lemma unnamed_level:
  assumes "level \<notin> range Level_value"
  shows "cpp11_levelLabel level = '' UNKNOWN ''" and "cpp11_colorCode level = ESC # ''[0m''"
proof -
  have "level \<noteq> Level_value l" for l
    using assms by blast
  from this [of Trace] this [of Debug] this [of Info] this [of Notice] this [of Warning]
    this [of Error] this [of Critical] this [of Alert] this [of Emergency] this [of Profile]
  show "cpp11_levelLabel level = '' UNKNOWN ''" and "cpp11_colorCode level = ESC # ''[0m''"
    by (simp_all add: cpp11_levelLabel_def cpp11_colorCode_def)
qed

lemma Level_value_bounds: "0 \<le> Level_value l \<and> Level_value l \<le> 9"
  by (cases l) simp_all

lemma unnamed_value: "v < 0 \<or> 9 < v \<Longrightarrow> v \<notin> range Level_value"
proof
  assume v: "v < 0 \<or> 9 < v" and "v \<in> range Level_value"
  then obtain l where "v = Level_value l" by blast
  with v Level_value_bounds [of l] show False by linarith
qed

lemma example_timestamp: "cpp11_timestamp example_world = ''22:14:05.005''"
  by code_simp

subsection \<open>Segments in a header\<close>

lemma digit_char_in: "digit_char d \<in> timestamp_chars"
proof -
  have "digit_char d \<in> set ''0123456789''"
    unfolding digit_char_def by (rule nth_mem) simp
  then show ?thesis
    unfolding timestamp_chars_def by auto
qed

lemma show_nat_chars: "set (show_nat n) \<subseteq> timestamp_chars"
proof (induction n rule: show_nat.induct)
  case (1 n)
  show ?case
  proof (cases "n < 10")
    case True
    then show ?thesis using digit_char_in [of n] by (simp add: show_nat_1)
  next
    case False
    then have "show_nat n = show_nat (n div 10) @ [digit_char (n mod 10)]"
      by (subst show_nat.simps) simp
    with 1 False digit_char_in [of "n mod 10"] show ?thesis
      by simp
  qed
qed

lemma show_int_chars: "set (show_int i) \<subseteq> timestamp_chars"
proof -
  have "CHR ''-'' \<in> timestamp_chars"
    by (simp add: timestamp_chars_def)
  then show ?thesis
    using show_nat_chars [of "nat i"] show_nat_chars [of "nat (- i)"]
    by (simp add: show_int_def)
qed

lemma padded_int_chars: "set (setw_setfill n CHR ''0'' (show_int i)) \<subseteq> timestamp_chars"
proof -
  have "CHR ''0'' \<in> timestamp_chars"
    by (simp add: timestamp_chars_def)
  then show ?thesis
    using show_int_chars [of i] by (auto simp: setw_setfill_def)
qed

lemma put_time_T_chars: "set (put_time_T t) \<subseteq> timestamp_chars"
proof -
  have "CHR '':'' \<in> timestamp_chars"
    by (simp add: timestamp_chars_def)
  then show ?thesis
    using padded_int_chars [of 2 "tm_hour t"] padded_int_chars [of 2 "tm_min t"]
      padded_int_chars [of 2 "tm_sec t"]
    by (simp add: put_time_T_def)
qed

lemma cpp11_timestamp_chars: "set (cpp11_timestamp w) \<subseteq> timestamp_chars"
proof -
  have "CHR ''.'' \<in> timestamp_chars"
    by (simp add: timestamp_chars_def)
  then show ?thesis
    using put_time_T_chars [of "localtime_r w (system_clock_now w sdiv 1000000000)"]
      padded_int_chars [of 3 "(system_clock_now w sdiv 1000000) smod 1000"]
    by (simp add: cpp11_timestamp_def Let_def)
qed

lemma occurrences_skip:
  "c \<notin> set xs \<Longrightarrow> occurrences (c # p) (xs @ ys) = occurrences (c # p) ys"
  by (induction xs) simp_all

lemma cpp11_timestamp_nonempty: "cpp11_timestamp w \<noteq> []"
  by (simp add: cpp11_timestamp_def Let_def)

lemma timestamp_no_segment:
  assumes "c \<notin> timestamp_chars"
  shows "occurrences (CHR ''['' # c # p) (''['' @ cpp11_timestamp w @ CHR '']'' # rest) =
         occurrences (CHR ''['' # c # p) rest"
proof -
  let ?ts = "cpp11_timestamp w"
  have "CHR ''['' \<notin> timestamp_chars"
    by (simp add: timestamp_chars_def)
  then have a: "CHR ''['' \<notin> set ?ts" and b: "c \<notin> set ?ts"
    using cpp11_timestamp_chars [of w] assms by auto
  have "\<not> prefix (c # p) (?ts @ CHR '']'' # rest)"
  proof (cases ?ts)
    case Nil
    then show ?thesis using cpp11_timestamp_nonempty [of w] by simp
  next
    case (Cons t ts)
    with b show ?thesis by auto
  qed
  then have "occurrences (CHR ''['' # c # p) (''['' @ ?ts @ CHR '']'' # rest) =
             occurrences (CHR ''['' # c # p) (?ts @ CHR '']'' # rest)"
    by simp
  also have "\<dots> = occurrences (CHR ''['' # c # p) (CHR '']'' # rest)"
    using a by (rule occurrences_skip)
  also have "\<dots> = occurrences (CHR ''['' # c # p) rest"
    by simp
  finally show ?thesis .
qed

lemma level_bracket_net:
  "occurrences ''[net]''
     (''['' @ cpp11_colorCode level @ cpp11_levelLabel level @ ESC # ''[0m'' @ '']'' @ ''[net]'' @ '' '') = 1"
  by (simp add: cpp11_colorCode_def cpp11_levelLabel_def ESC_def)

lemma level_bracket_empty:
  "occurrences ''[]''
     (''['' @ cpp11_colorCode level @ cpp11_levelLabel level @ ESC # ''[0m'' @ '']'' @ '' '') = 0"
  by (simp add: cpp11_colorCode_def cpp11_levelLabel_def ESC_def)

lemma header_net:
  "occurrences ''[net]''
     (header (cpp11_timestamp w) (cpp11_colorCode level) (cpp11_levelLabel level) ''net'') = 1"
proof -
  have "CHR ''n'' \<notin> timestamp_chars"
    by (simp add: timestamp_chars_def)
  from timestamp_no_segment [OF this, of "''et]''" w]
  show ?thesis
    using level_bracket_net [of level] by (simp add: header_def)
qed

lemma header_empty:
  "occurrences ''[]''
     (header (cpp11_timestamp w) (cpp11_colorCode level) (cpp11_levelLabel level) []) = 0"
proof -
  have "CHR '']'' \<notin> timestamp_chars"
    by (simp add: timestamp_chars_def)
  from timestamp_no_segment [OF this, of "[]" w]
  show ?thesis
    using level_bracket_empty [of level] by (simp add: header_def)
qed

subsection \<open>Construction, destruction and blocks\<close>

lemma cpp23_ScopeLogger_ctor_active:
  "cpp23_ScopeLogger_ctor False tag location w =
     (\<lparr>m_tag = tag, m_file_name = location_file_name location, m_line = location_line location,
       m_start = steady_clock_now w\<rparr>,
      w\<lparr>clog := clog w @ profile_record (cpp23_timestamp w)
        (start_message (viewed w tag) (viewed w (location_file_name location))
           (show_nat (location_line location)))\<rparr>)"
  by (simp add: cpp23_ScopeLogger_ctor_def cpp23_log_eq cpp11_log_profiling_active
      start_message_def cpp23_timestamp_eq)

lemma cpp23_ScopeLogger_dtor_active:
  "cpp23_ScopeLogger_dtor False this w =
     w\<lparr>clog := clog w @ profile_record (cpp23_timestamp w)
        (leave_message (if 0 < uncaught_exceptions w then ''EXCEPTION!'' else ''FINISH'')
           (viewed w (m_tag this))
           (fixed 3 (real_of_int ((steady_clock_now w - m_start this) sdiv 1000) / 1000))
           (viewed w (m_file_name this)) (show_nat (m_line this)))\<rparr>"
  by (simp add: cpp23_ScopeLogger_dtor_def cpp23_log_eq cpp11_log_profiling_active
      leave_message_def cpp23_timestamp_eq Let_def)


lemma example_later_timestamp: "cpp11_timestamp example_world_later = ''22:14:05.007''"
  by code_simp



lemma cpp11_ScopeLogger_inert:
  "snd (cpp11_ScopeLogger_ctor True tag file line w) = w"
  "cpp11_ScopeLogger_dtor True this w = w"
  by (simp_all add: cpp11_ScopeLogger_ctor_def cpp11_ScopeLogger_dtor_def cpp11_log_inert Let_def)

lemma cpp23_ScopeLogger_inert:
  "snd (cpp23_ScopeLogger_ctor True tag location w) = w"
  "cpp23_ScopeLogger_dtor True this' w = w"
  by (simp_all add: cpp23_ScopeLogger_ctor_def cpp23_ScopeLogger_dtor_def cpp23_log_eq
      cpp11_log_inert Let_def)

lemma cpp23_timestamp_update [simp]:
  "cpp23_timestamp (w\<lparr>clog := c\<rparr>) = cpp23_timestamp w"
  "cpp23_timestamp (w\<lparr>uncaught_exceptions := u\<rparr>) = cpp23_timestamp w"
  "cpp23_timestamp (w\<lparr>storage := m\<rparr>) = cpp23_timestamp w"
  by (simp_all add: cpp23_timestamp_eq)

lemma destroy_cpp11:
  "destroy_automatic (cpp11_ScopeLogger_dtor False this) r w =
     w\<lparr>clog := clog w @ profile_record (cpp11_timestamp w)
        (leave_message (if isl r \<or> 0 < uncaught_exceptions w then ''EXCEPTION!'' else ''FINISH'')
           (m_tag this)
           (fixed 3 (real_of_int ((steady_clock_now w - m_start this) sdiv 1000) / 1000))
           (m_file_name this) (show_int (m_line this)))\<rparr>"
  by (cases r) (simp_all add: destroy_automatic_def cpp11_ScopeLogger_dtor_active)

lemma destroy_cpp23:
  "destroy_automatic (cpp23_ScopeLogger_dtor False this) r w =
     w\<lparr>clog := clog w @ profile_record (cpp23_timestamp w)
        (leave_message (if isl r \<or> 0 < uncaught_exceptions w then ''EXCEPTION!'' else ''FINISH'')
           (viewed w (m_tag this))
           (fixed 3 (real_of_int ((steady_clock_now w - m_start this) sdiv 1000) / 1000))
           (viewed w (m_file_name this)) (show_nat (m_line this)))\<rparr>"
  by (cases r) (simp_all add: destroy_automatic_def cpp23_ScopeLogger_dtor_active)

lemma destroy_inert:
  "destroy_automatic (cpp11_ScopeLogger_dtor True this) r v = v"
  "destroy_automatic (cpp23_ScopeLogger_dtor True this') r v = v"
  by (cases r; simp add: destroy_automatic_def cpp11_ScopeLogger_inert cpp23_ScopeLogger_inert)+

lemma cpp23_block_with_move_active:
  "cpp23_block_with_move False tag location w =
     w\<lparr>clog := clog w @
        profile_record (cpp23_timestamp w)
          (start_message (viewed w tag) (viewed w (location_file_name location))
             (show_nat (location_line location))) @
        profile_record (cpp23_timestamp w)
          (leave_message (if 0 < uncaught_exceptions w then ''EXCEPTION!'' else ''FINISH'')
             (viewed w tag) (fixed 3 0) (viewed w (location_file_name location))
             (show_nat (location_line location))) @
        profile_record (cpp23_timestamp w)
          (leave_message (if 0 < uncaught_exceptions w then ''EXCEPTION!'' else ''FINISH'')
             (viewed w tag) (fixed 3 0) (viewed w (location_file_name location))
             (show_nat (location_line location)))\<rparr>"
  by (simp add: cpp23_block_with_move_def cpp23_ScopeLogger_ctor_active
      cpp23_ScopeLogger_move_ctor_def cpp23_ScopeLogger_dtor_active)

lemma cpp11_block_with_move_active:
  "cpp11_block_with_move False tag' file' tag file line w =
     w\<lparr>clog := clog w @
        profile_record (cpp11_timestamp w) (start_message tag file (show_int line)) @
        profile_record (cpp11_timestamp w)
          (leave_message (if 0 < uncaught_exceptions w then ''EXCEPTION!'' else ''FINISH'') tag
             (fixed 3 0) file (show_int line)) @
        profile_record (cpp11_timestamp w)
          (leave_message (if 0 < uncaught_exceptions w then ''EXCEPTION!'' else ''FINISH'') tag'
             (fixed 3 0) file' (show_int line))\<rparr>"
  by (simp add: cpp11_block_with_move_def cpp11_ScopeLogger_ctor_active
      cpp11_ScopeLogger_move_ctor_def cpp11_ScopeLogger_dtor_active)

lemma fixed_zero: "fixed 3 0 = ''0.000''"
  using fixed_microseconds [of 0] by (simp add: milliseconds_3_def three_digits_def show_nat_1 digit_char_0)

lemma elapse_example: "elapse (example_world\<lparr>clog := c\<rparr>) = example_world_later\<lparr>clog := c\<rparr>"
  by (simp add: elapse_def example_world_later_def example_world_def)

lemma example_views:
  "viewed example_world example_tag = ''load''"
  "viewed example_world example_file_name = ''main.cpp''"
  "viewed example_world_later example_tag = ''load''"
  "viewed example_world_later example_file_name = ''main.cpp''"
  by code_simp+

lemma example_views_overwritten:
  "viewed (example_world_later\<lparr>storage := example_storage(100 := CHR ''X'')\<rparr>) example_tag = ''Xoad''"
  "viewed (example_world_later\<lparr>storage := example_storage(100 := CHR ''X'')\<rparr>) example_file_name =
     ''main.cpp''"
  by code_simp+

lemma rest_overwrites_example:
  "rest_overwrites (example_world\<lparr>clog := c\<rparr>) =
     (Inr (), example_world_later\<lparr>storage := example_storage(100 := CHR ''X''), clog := c\<rparr>)"
  by (simp add: rest_overwrites_def elapse_def example_world_later_def example_world_def)


lemma fixed_example: "fixed 3 (5 / 2) = ''2.500''"
proof -
  have "milliseconds_3 2500 = ''2.500''"
    by code_simp
  then show ?thesis
    using fixed_microseconds [of 2500] by simp
qed

lemma destroy_cpp23_eq:
  "destroy_automatic (cpp23_ScopeLogger_dtor NDEBUG
     \<lparr>m_tag = tag, m_file_name = file, m_line = n, m_start = s\<rparr>) r v =
   destroy_automatic (cpp11_ScopeLogger_dtor NDEBUG
     \<lparr>m_tag = viewed v tag, m_file_name = viewed v file, m_line = int n, m_start = s\<rparr>) r v"
  by (cases r) (simp_all add: destroy_automatic_def cpp23_ScopeLogger_dtor_eq)

lemma cpp23_ScopeLogger_block_eq:
  assumes "viewed (snd (rest (snd (cpp23_ScopeLogger_ctor NDEBUG tag
             \<lparr>location_file_name = file, location_line = n\<rparr> w)))) tag = viewed w tag"
    and "viewed (snd (rest (snd (cpp23_ScopeLogger_ctor NDEBUG tag
             \<lparr>location_file_name = file, location_line = n\<rparr> w)))) file = viewed w file"
  shows "cpp23_ScopeLogger_block NDEBUG tag \<lparr>location_file_name = file, location_line = n\<rparr> rest w =
    cpp11_ScopeLogger_block NDEBUG (viewed w tag) (viewed w file) (int n) rest w"
proof -
  define w1 where "w1 = snd (cpp11_ScopeLogger_ctor NDEBUG (viewed w tag) (viewed w file) (int n) w)"
  have a: "cpp11_ScopeLogger_ctor NDEBUG (viewed w tag) (viewed w file) (int n) w =
      (\<lparr>m_tag = viewed w tag, m_file_name = viewed w file, m_line = int n,
        m_start = steady_clock_now w\<rparr>, w1)"
    by (simp add: w1_def cpp11_ScopeLogger_ctor_def Let_def)
  have b: "cpp23_ScopeLogger_ctor NDEBUG tag \<lparr>location_file_name = file, location_line = n\<rparr> w =
      (\<lparr>m_tag = tag, m_file_name = file, m_line = n, m_start = steady_clock_now w\<rparr>, w1)"
    by (simp add: w1_def cpp23_ScopeLogger_ctor_eq)
  obtain r w2 where c: "rest w1 = (r, w2)"
    by (cases "rest w1")
  have d: "viewed w2 tag = viewed w tag" "viewed w2 file = viewed w file"
    using assms by (simp_all add: b c)
  show ?thesis
    unfolding cpp23_ScopeLogger_block_def cpp11_ScopeLogger_block_def a b
    by (simp add: c destroy_cpp23_eq d)
qed

subsection \<open>Allocation failures\<close>


lemma noexcept_Returns [simp]: "noexcept (Returns, st) = (Returns, st)"
  by (simp add: noexcept_def)

lemma noexcept_Terminates [simp]: "noexcept (Terminates, st) = (Terminates, st)"
  by (simp add: noexcept_def)

lemma noexcept_Propagates [simp]: "noexcept (Propagates e, st) = (Terminates, st)"
  by (simp add: noexcept_def)





























section \<open>The claims\<close>

subsection \<open>C1: two records for each timer\<close>

text \<open>
  Claim C1, as stated, promises exactly two records for every \<open>ScopeLogger\<close>, also
  after a move. A block that constructs a timer and move-constructs a second one from
  it writes one \<^verbatim>\<open>START\<close> record and two \<^verbatim>\<open>FINISH\<close> records, since the object moved
  from is destroyed as well (in \<^verbatim>\<open>logger_cpp11.hpp\<close> with whatever the move left in its
  strings). With \<^verbatim>\<open>NDEBUG\<close> defined a \<open>ScopeLogger\<close> writes no record at all.
\<close>

theorem C1_counterexample:
  "clog (cpp23_block_with_move False example_tag example_location example_world) =
     [''[22:14:05.005]['' @ ESC # ''[1;36mPROFILING'' @ ESC # ''[0m] START load @ main.cpp:42'' @
      ESC # ''[0m'', [CHR 0x0A],
      ''[22:14:05.005]['' @ ESC # ''[1;36mPROFILING'' @ ESC # ''[0m] FINISH load (0.000ms) @ main.cpp:42'' @
      ESC # ''[0m'', [CHR 0x0A],
      ''[22:14:05.005]['' @ ESC # ''[1;36mPROFILING'' @ ESC # ''[0m] FINISH load (0.000ms) @ main.cpp:42'' @
      ESC # ''[0m'', [CHR 0x0A]] \<and>
   clog (cpp11_block_with_move False [] [] ''load'' ''main.cpp'' 42 example_world) =
     [''[22:14:05.005]['' @ ESC # ''[1;36mPROFILING'' @ ESC # ''[0m] START load @ main.cpp:42'' @
      ESC # ''[0m'', [CHR 0x0A],
      ''[22:14:05.005]['' @ ESC # ''[1;36mPROFILING'' @ ESC # ''[0m] FINISH load (0.000ms) @ main.cpp:42'' @
      ESC # ''[0m'', [CHR 0x0A],
      ''[22:14:05.005]['' @ ESC # ''[1;36mPROFILING'' @ ESC # ''[0m] FINISH  (0.000ms) @ :42'' @
      ESC # ''[0m'', [CHR 0x0A]] \<and>
   cpp11_ScopeLogger_block True ''load'' ''main.cpp'' 42 rest_completes example_world =
     (Inr (), example_world_later) \<and>
   cpp23_ScopeLogger_block True example_tag example_location rest_throws example_world =
     (Inl bad_alloc, example_world_later) \<and>
   clog example_world_later = []"
proof -
  have b: "clog example_world = []" "clog example_world_later = []"
    "uncaught_exceptions example_world = 0"
    by (simp_all add: example_world_later_def example_world_def)
  have c: "show_int 42 = ''42''" "show_nat 42 = ''42''"
    by code_simp+
  have d: "elapse example_world = example_world_later"
    by (simp add: elapse_def example_world_later_def example_world_def)
  have e: "cpp11_ScopeLogger_block True ''load'' ''main.cpp'' 42 rest_completes example_world =
      (Inr (), example_world_later)"
    by (simp add: cpp11_ScopeLogger_block_def cpp11_ScopeLogger_ctor_def cpp11_log_inert
        rest_completes_def d destroy_automatic_def cpp11_ScopeLogger_inert)
  have f: "cpp23_ScopeLogger_block True example_tag example_location rest_throws example_world =
      (Inl bad_alloc, example_world_later)"
    by (simp add: cpp23_ScopeLogger_block_def cpp23_ScopeLogger_ctor_def cpp23_log_eq
        cpp11_log_inert rest_throws_def d destroy_automatic_def cpp23_ScopeLogger_inert)
  show ?thesis
    unfolding e f
    by (simp add: cpp23_block_with_move_active cpp11_block_with_move_active
        b c example_timestamp cpp23_timestamp_eq fixed_zero example_views
        example_location_def profile_record_def header_def start_message_def leave_message_def)
qed

text \<open>
  Claim C1, amended. In the active build a \<open>ScopeLogger\<close> that is declared in a block,
  and neither moved from nor move-constructed, writes exactly two Profile-level
  records: \<^verbatim>\<open>START <tag> @ <file>:<line>\<close> when it is constructed, before the rest of the
  block runs, and one \<^verbatim>\<open>FINISH\<close> or \<^verbatim>\<open>EXCEPTION!\<close> record when it is destroyed, after
  the rest of the block has completed or has thrown. The macro \<^verbatim>\<open>log_profile\<close> declares
  such an object. With \<^verbatim>\<open>NDEBUG\<close> defined the object writes nothing. The type has no
  copy operation. (In \<^verbatim>\<open>logger_cpp23.hpp\<close> tag and file name are views: each record shows
  the characters they view when it is written.)
\<close>

theorem C1_two_records:
  "cpp11_ScopeLogger_block False tag file line rest w =
     (case rest (w\<lparr>clog := clog w @
               profile_record (cpp11_timestamp w) (start_message tag file (show_int line))\<rparr>) of
        (r, w2) \<Rightarrow>
          (r, w2\<lparr>clog := clog w2 @
                profile_record (cpp11_timestamp w2)
                  (leave_message
                     (if isl r \<or> 0 < uncaught_exceptions w2 then ''EXCEPTION!'' else ''FINISH'')
                     tag
                     (fixed 3 (real_of_int ((steady_clock_now w2 - steady_clock_now w) sdiv 1000) / 1000))
                     file (show_int line))\<rparr>)) \<and>
   cpp11_ScopeLogger_block True tag file line rest w = rest w \<and>
   cpp11_log_profile False tag file line rest w = cpp11_ScopeLogger_block False tag file line rest w \<and>
   cpp23_ScopeLogger_block False tag_view location rest w =
     (case rest (w\<lparr>clog := clog w @
               profile_record (cpp23_timestamp w)
                 (start_message (viewed w tag_view) (viewed w (location_file_name location))
                    (show_nat (location_line location)))\<rparr>) of
        (r, w2) \<Rightarrow>
          (r, w2\<lparr>clog := clog w2 @
                profile_record (cpp23_timestamp w2)
                  (leave_message
                     (if isl r \<or> 0 < uncaught_exceptions w2 then ''EXCEPTION!'' else ''FINISH'')
                     (viewed w2 tag_view)
                     (fixed 3 (real_of_int ((steady_clock_now w2 - steady_clock_now w) sdiv 1000) / 1000))
                     (viewed w2 (location_file_name location))
                     (show_nat (location_line location)))\<rparr>)) \<and>
   cpp23_ScopeLogger_block True tag_view location rest w = rest w \<and>
   cpp23_log_profile False tag_view location rest w = cpp23_ScopeLogger_block False tag_view location rest w"
proof -
  note a = destroy_inert
  have b: "cpp11_ScopeLogger_ctor True tag file line w = (fst (cpp11_ScopeLogger_ctor True tag file line w), w)"
    "cpp23_ScopeLogger_ctor True tag_view location w = (fst (cpp23_ScopeLogger_ctor True tag_view location w), w)"
    using cpp11_ScopeLogger_inert(1) [of tag "file" line w] cpp23_ScopeLogger_inert(1) [of tag_view location w]
    by (simp_all add: prod_eq_iff)
  have c: "cpp11_ScopeLogger_block True tag file line rest w = rest w"
    unfolding cpp11_ScopeLogger_block_def by (subst b) (simp add: a split: prod.splits)
  have d: "cpp23_ScopeLogger_block True tag_view location rest w = rest w"
    unfolding cpp23_ScopeLogger_block_def by (subst b) (simp add: a split: prod.splits)
  show ?thesis
    using c d
    by (simp add: cpp11_log_profile_def cpp23_log_profile_def cpp11_ScopeLogger_block_def
        cpp23_ScopeLogger_block_def cpp11_ScopeLogger_ctor_active cpp23_ScopeLogger_ctor_active
        destroy_cpp11 destroy_cpp23 split: prod.splits)
qed

theorem C1_two_records_witness:
  "cpp11_ScopeLogger_block False ''load'' ''main.cpp'' 42 rest_completes example_world =
     (Inr (),
      example_world_later\<lparr>clog :=
        [''[22:14:05.005]['' @ ESC # ''[1;36mPROFILING'' @ ESC #
         ''[0m] START load @ main.cpp:42'' @ ESC # ''[0m'', [CHR 0x0A],
         ''[22:14:05.007]['' @ ESC # ''[1;36mPROFILING'' @ ESC #
         ''[0m] FINISH load (2.500ms) @ main.cpp:42'' @ ESC # ''[0m'', [CHR 0x0A]]\<rparr>) \<and>
   cpp23_ScopeLogger_block False example_tag example_location rest_throws example_world =
     (Inl bad_alloc,
      example_world_later\<lparr>clog :=
        [''[22:14:05.005]['' @ ESC # ''[1;36mPROFILING'' @ ESC #
         ''[0m] START load @ main.cpp:42'' @ ESC # ''[0m'', [CHR 0x0A],
         ''[22:14:05.007]['' @ ESC # ''[1;36mPROFILING'' @ ESC #
         ''[0m] EXCEPTION! load (2.500ms) @ main.cpp:42'' @ ESC # ''[0m'', [CHR 0x0A]]\<rparr>)"
proof -
  have b: "clog example_world = []" "uncaught_exceptions example_world_later = 0"
    "steady_clock_now example_world_later = 1002500000"
    "steady_clock_now example_world = 1000000000"
    by (simp_all add: example_world_later_def example_world_def)
  have c: "show_int 42 = ''42''" "show_nat 42 = ''42''"
    by code_simp+
  have d: "location_file_name example_location = example_file_name"
    "location_line example_location = 42"
    by (simp_all add: example_location_def)
  have "milliseconds_3 2500 = ''2.500''"
    by code_simp
  then have e: "fixed 3 (5 / 2) = ''2.500''"
    using fixed_microseconds [of 2500] by simp
  have f: "rest_completes (example_world\<lparr>clog := c\<rparr>) = (Inr (), example_world_later\<lparr>clog := c\<rparr>)"
    "rest_throws (example_world\<lparr>clog := c\<rparr>) = (Inl bad_alloc, example_world_later\<lparr>clog := c\<rparr>)"
    for c
    by (simp_all add: rest_completes_def rest_throws_def elapse_example)
  have g: "cpp11_ScopeLogger_block False ''load'' ''main.cpp'' 42 rest_completes example_world =
      (case rest_completes (example_world\<lparr>clog := clog example_world @
               profile_record (cpp11_timestamp example_world) (start_message ''load'' ''main.cpp'' (show_int 42))\<rparr>) of
        (r, w2) \<Rightarrow>
          (r, w2\<lparr>clog := clog w2 @
                profile_record (cpp11_timestamp w2)
                  (leave_message
                     (if isl r \<or> 0 < uncaught_exceptions w2 then ''EXCEPTION!'' else ''FINISH'')
                     ''load''
                     (fixed 3 (real_of_int ((steady_clock_now w2 - steady_clock_now example_world) sdiv 1000) / 1000))
                     ''main.cpp'' (show_int 42))\<rparr>))"
    by (rule C1_two_records [THEN conjunct1])
  have h: "cpp23_ScopeLogger_block False example_tag example_location rest_throws example_world =
     (case rest_throws (example_world\<lparr>clog := clog example_world @
               profile_record (cpp23_timestamp example_world)
                 (start_message (viewed example_world example_tag)
                    (viewed example_world (location_file_name example_location))
                    (show_nat (location_line example_location)))\<rparr>) of
        (r, w2) \<Rightarrow>
          (r, w2\<lparr>clog := clog w2 @
                profile_record (cpp23_timestamp w2)
                  (leave_message
                     (if isl r \<or> 0 < uncaught_exceptions w2 then ''EXCEPTION!'' else ''FINISH'')
                     (viewed w2 example_tag)
                     (fixed 3 (real_of_int ((steady_clock_now w2 - steady_clock_now example_world) sdiv 1000) / 1000))
                     (viewed w2 (location_file_name example_location))
                     (show_nat (location_line example_location)))\<rparr>))"
    by (rule C1_two_records [THEN conjunct2, THEN conjunct2, THEN conjunct2, THEN conjunct1])
  show ?thesis
    unfolding g h f
    by (simp add: b c d e example_timestamp example_later_timestamp cpp23_timestamp_eq
        example_views profile_record_def header_def start_message_def leave_message_def
        signed_divide_int_def)
qed

subsection \<open>C2: the severity table\<close>

text \<open>
  Claim C2. For each of the ten enumerators of \<open>Level\<close>, \<open>levelLabel\<close> returns the label
  of the table of section 4.1, which is nine characters long, and \<open>colorCode\<close> returns
  an escape sequence that selects the colour the table names, in both headers. The
  two functions are total and depend on nothing but their argument.
\<close>

theorem C2_severity_table:
  "cpp11_levelLabel (Level_value l) = table_label l \<and>
   length (cpp11_levelLabel (Level_value l)) = 9 \<and>
   escape_shows (cpp11_colorCode (Level_value l)) (table_color l) \<and>
   cpp23_levelLabel (Level_value l) = table_label l \<and>
   length (cpp23_levelLabel (Level_value l)) = 9 \<and>
   escape_shows (cpp23_colorCode (Level_value l)) (table_color l)"
  by (cases l)
     (simp_all add: cpp11_levelLabel_def cpp23_levelLabel_def cpp11_colorCode_def cpp23_colorCode_def
        escape_shows_def rendition_of_def ESC_def select_rendition_def default_rendition_def
        colour_of_def bright_text_def)

theorem C2_severity_table_witness:
  "cpp11_levelLabel 8 = ''EMERGENCY'' \<and> cpp23_levelLabel 0 = ''  TRACE  '' \<and>
   escape_shows (cpp11_colorCode 8) (Background_bright_text Red White) \<and>
   escape_shows (cpp23_colorCode 0) (Bright White)"
  using C2_severity_table [of Emergency] C2_severity_table [of Trace] by simp

subsection \<open>C3: the record written at destruction\<close>




subsection \<open>C4: the header of a record\<close>

text \<open>
  Claim C4. The constructor of \<open>Logger\<close> renders into the buffer exactly the header
  \<^verbatim>\<open>[<timestamp>][<color><label><reset>]\<close>, then \<^verbatim>\<open>[<category>]\<close> if and only if the
  category is not empty, then one space. For the empty category the header has no
  segment \<^verbatim>\<open>[]\<close> and ends right after the level bracket; for the category \<^verbatim>\<open>net\<close> it
  has exactly one segment \<^verbatim>\<open>[net]\<close>.
\<close>

theorem C4_header:
  "m_stream (cpp11_Logger_ctor w level category) =
     header (cpp11_timestamp w) (cpp11_colorCode level) (cpp11_levelLabel level) category \<and>
   m_stream (cpp11_Logger_ctor w level []) =
     ''['' @ cpp11_timestamp w @ '']['' @ cpp11_colorCode level @ cpp11_levelLabel level @
     ESC # ''[0m] '' \<and>
   occurrences ''[]'' (m_stream (cpp11_Logger_ctor w level [])) = 0 \<and>
   m_stream (cpp11_Logger_ctor w level ''net'') =
     ''['' @ cpp11_timestamp w @ '']['' @ cpp11_colorCode level @ cpp11_levelLabel level @
     ESC # ''[0m][net] '' \<and>
   occurrences ''[net]'' (m_stream (cpp11_Logger_ctor w level ''net'')) = 1 \<and>
   m_stream (cpp23_Logger_ctor w level category) =
     header (cpp23_timestamp w) (cpp23_colorCode level) (cpp23_levelLabel level) category \<and>
   m_stream (cpp23_Logger_ctor w level []) =
     ''['' @ cpp23_timestamp w @ '']['' @ cpp23_colorCode level @ cpp23_levelLabel level @
     ESC # ''[0m] '' \<and>
   occurrences ''[]'' (m_stream (cpp23_Logger_ctor w level [])) = 0 \<and>
   m_stream (cpp23_Logger_ctor w level ''net'') =
     ''['' @ cpp23_timestamp w @ '']['' @ cpp23_colorCode level @ cpp23_levelLabel level @
     ESC # ''[0m][net] '' \<and>
   occurrences ''[net]'' (m_stream (cpp23_Logger_ctor w level ''net'')) = 1"
proof -
  have a: "m_stream (cpp11_Logger_ctor w level c) =
      header (cpp11_timestamp w) (cpp11_colorCode level) (cpp11_levelLabel level) c" for c
    by (rule cpp11_Logger_ctor_header)
  have b: "header ts col lab [] = ''['' @ ts @ '']['' @ col @ lab @ ESC # ''[0m] ''" for ts col lab
    by (simp add: header_def)
  have c: "header ts col lab ''net'' = ''['' @ ts @ '']['' @ col @ lab @ ESC # ''[0m][net] ''"
    for ts col lab
    by (simp add: header_def)
  have d: "occurrences ''[]'' (m_stream (cpp11_Logger_ctor w level [])) = 0"
    unfolding a by (rule header_empty)
  have e: "occurrences ''[net]'' (m_stream (cpp11_Logger_ctor w level ''net'')) = 1"
    unfolding a by (rule header_net)
  show ?thesis
    unfolding cpp23_Logger_ctor_eq cpp23_timestamp_eq cpp23_colorCode_eq cpp23_levelLabel_eq
    using a [of category] a [of "[]"] a [of "''net''"] b c d e by simp
qed

theorem C4_header_witness:
  "m_stream (cpp11_Logger_ctor example_world (Level_value Info) ''net'') =
     ''[22:14:05.005]['' @ ESC # ''[1;32m  INFO   '' @ ESC # ''[0m][net] '' \<and>
   m_stream (cpp23_Logger_ctor example_world (Level_value Info) []) =
     ''[22:14:05.005]['' @ ESC # ''[1;32m  INFO   '' @ ESC # ''[0m] ''"
  using C4_header [of example_world "Level_value Info" "[]"]
  unfolding header_def
  by (simp add: example_timestamp cpp23_timestamp_eq cpp11_colorCode_def cpp11_levelLabel_def
      cpp23_colorCode_eq cpp23_levelLabel_eq)

subsection \<open>C5: appending and emitting\<close>

text \<open>
  Claim C5, as stated, has the destructor of \<open>Logger\<close> hand the line and its newline to
  the diagnostic stream in one write. The destructor makes two insertions,
  one for \<^verbatim>\<open>m_stream.str()\<close> and one for the newline character.
\<close>

theorem C5_counterexample:
  "clog (cpp11_Logger_dtor \<lparr>m_stream = ''[22:14:05.005] up''\<rparr> example_world) =
     [''[22:14:05.005] up'' @ ESC # ''[0m'', [CHR 0x0A]] \<and>
   clog (cpp11_Logger_dtor \<lparr>m_stream = ''[22:14:05.005] up''\<rparr> example_world) \<noteq>
     [''[22:14:05.005] up'' @ ESC # ''[0m'' @ [CHR 0x0A]] \<and>
   length (clog (cpp11_Logger_dtor \<lparr>m_stream = ''[22:14:05.005] up''\<rparr> example_world)) = 2 \<and>
   length (clog (cpp23_Logger_dtor \<lparr>m_stream = ''[22:14:05.005] up''\<rparr> example_world)) = 2"
  by (simp add: cpp11_Logger_dtor_def cpp23_Logger_dtor_def example_world_def)

text \<open>
  Claim C5, amended. Each \<^verbatim>\<open>operator<<\<close> appends exactly the rendering of its value to
  the buffer, with no separator. The destructor appends the reset sequence to the
  buffer and then makes two consecutive insertions into the diagnostic stream, the
  whole buffer and one newline, so that a statement adds to the stream exactly the
  header, the renderings in the order of the appends, the reset sequence and the
  newline; nothing of the record reaches the stream before the destructor runs.
\<close>

theorem C5_emitted_line:
  "m_stream (cpp11_Logger_shl render this v) = m_stream this @ render v \<and>
   cpp11_stream_all this es w =
     (case evaluate_all es w of
        (vs, w') \<Rightarrow> (this\<lparr>m_stream := m_stream this @ concat vs\<rparr>, w')) \<and>
   clog (cpp11_Logger_dtor this w) = clog w @ [m_stream this @ ESC # ''[0m'', [CHR 0x0A]] \<and>
   cpp11_Logger_statement level category es w =
     (case evaluate_all es w of
        (vs, w') \<Rightarrow>
          w'\<lparr>clog := clog w' @
            [header (cpp11_timestamp w) (cpp11_colorCode level) (cpp11_levelLabel level) category @
             concat vs @ ESC # ''[0m'', [CHR 0x0A]]\<rparr>) \<and>
   m_stream (cpp23_Logger_shl render this v) = m_stream this @ render v \<and>
   cpp23_stream_all this es w =
     (case evaluate_all es w of
        (vs, w') \<Rightarrow> (this\<lparr>m_stream := m_stream this @ concat vs\<rparr>, w')) \<and>
   clog (cpp23_Logger_dtor this w) = clog w @ [m_stream this @ ESC # ''[0m'', [CHR 0x0A]] \<and>
   cpp23_Logger_statement level category es w =
     (case evaluate_all es w of
        (vs, w') \<Rightarrow>
          w'\<lparr>clog := clog w' @
            [header (cpp23_timestamp w) (cpp23_colorCode level) (cpp23_levelLabel level) category @
             concat vs @ ESC # ''[0m'', [CHR 0x0A]]\<rparr>)"
  unfolding cpp23_Logger_shl_eq cpp23_stream_all_eq cpp23_Logger_dtor_eq cpp23_Logger_statement_eq
    cpp23_timestamp_eq cpp23_colorCode_eq cpp23_levelLabel_eq
  using cpp11_stream_all_evaluate [of this es w] cpp11_Logger_statement_line [of level category es w]
  by (simp add: cpp11_Logger_shl_def cpp11_Logger_dtor_def)

theorem C5_emitted_line_witness:
  "clog (cpp11_Logger_statement (Level_value Info) ''net'' [yields ''link '', yields ''up'']
           example_world) =
     [''[22:14:05.005]['' @ ESC # ''[1;32m  INFO   '' @ ESC # ''[0m][net] link up'' @ ESC # ''[0m'',
      [CHR 0x0A]] \<and>
   counter (cpp23_Logger_statement (Level_value Info) [] [increment, increment] example_counting) = 2 \<and>
   clog (cpp23_Logger_statement (Level_value Info) [] [increment, increment] example_counting) =
     [''[22:14:05.005]['' @ ESC # ''[1;32m  INFO   '' @ ESC # ''[0m] 12'' @ ESC # ''[0m'',
      [CHR 0x0A]]"
proof -
  have a: "cpp23_timestamp example_counting = ''22:14:05.005''"
    by code_simp
  have b: "evaluate_all [yields ''link '', yields ''up''] example_world =
           ([''link '', ''up''], example_world)"
    by (simp add: yields_def)
  have c: "evaluate_all [increment, increment] example_counting =
           ([''1'', ''2''], example_counting\<lparr>counter := 2\<rparr>)"
    by (simp add: increment_def example_counting_def show_nat_1 digit_char_def numeral_2_eq_2)
  have d: "clog example_world = []" "clog example_counting = []"
    by (simp_all add: example_world_def example_counting_def)
  have e: "cpp11_colorCode 2 = ESC # ''[1;32m''" "cpp11_levelLabel 2 = ''  INFO   ''"
    "cpp23_colorCode 2 = ESC # ''[1;32m''" "cpp23_levelLabel 2 = ''  INFO   ''"
    by (simp_all add: cpp11_colorCode_def cpp11_levelLabel_def cpp23_colorCode_def
        cpp23_levelLabel_def)
  have "cpp11_Logger_statement (Level_value Info) ''net'' [yields ''link '', yields ''up'']
          example_world =
        example_world\<lparr>clog := clog example_world @
          [header (cpp11_timestamp example_world) (cpp11_colorCode (Level_value Info))
             (cpp11_levelLabel (Level_value Info)) ''net'' @
           concat [''link '', ''up''] @ ESC # ''[0m'', [CHR 0x0A]]\<rparr>"
    using C5_emitted_line [THEN conjunct2, THEN conjunct2, THEN conjunct2, THEN conjunct1,
        of "Level_value Info" "''net''" "[yields ''link '', yields ''up'']" example_world]
    unfolding b by simp
  moreover
  have "cpp23_Logger_statement (Level_value Info) [] [increment, increment] example_counting =
        example_counting\<lparr>counter := 2, clog := clog example_counting @
          [header (cpp23_timestamp example_counting) (cpp23_colorCode (Level_value Info))
             (cpp23_levelLabel (Level_value Info)) [] @
           concat [''1'', ''2''] @ ESC # ''[0m'', [CHR 0x0A]]\<rparr>"
    using C5_emitted_line [THEN conjunct2, THEN conjunct2, THEN conjunct2, THEN conjunct2,
        THEN conjunct2, THEN conjunct2, THEN conjunct2,
        of "Level_value Info" "[]" "[increment, increment]" example_counting]
    unfolding c by simp
  ultimately show ?thesis
    by (simp add: a d e example_timestamp header_def)
qed

subsection \<open>C6: the inert build\<close>

text \<open>
  Claim C6. With \<^verbatim>\<open>NDEBUG\<close> defined, a statement made with any of the ten level macros
  leaves the state of the program as it was: nothing is written, no \<open>Logger\<close> is
  constructed and none of the streamed expressions is evaluated. The macro
  \<^verbatim>\<open>log_profile\<close> expands to nothing, so the rest of the block runs as if it were not
  there.
\<close>

theorem C6_inert_build:
  "cpp11_log True l category es w = w \<and>
   cpp11_log_profile True tag file line rest w = rest w \<and>
   cpp23_log True l category es w = w \<and>
   cpp23_log_profile True tag_view location rest w = rest w"
  by (simp add: cpp11_log_def cpp23_log_def cpp11_log_profile_def cpp23_log_profile_def)

theorem C6_inert_build_witness:
  "cpp11_log True Info ''net'' [increment, yields ''x''] example_counting = example_counting \<and>
   counter (cpp11_log True Info ''net'' [increment, yields ''x''] example_counting) = 0 \<and>
   clog (cpp23_log True Warning [] [increment] example_counting) = []"
proof -
  have a: "cpp11_log True Info ''net'' [increment, yields ''x''] example_counting = example_counting"
    by (rule C6_inert_build [THEN conjunct1])
  have b: "cpp23_log True Warning [] [increment] example_counting = example_counting"
    by (rule C6_inert_build [THEN conjunct2, THEN conjunct2, THEN conjunct1])
  have c: "counter example_counting = 0" "clog example_counting = []"
    by (simp_all add: example_counting_def)
  show ?thesis
    unfolding a b using c by simp
qed

text \<open>In the active build the same statement evaluates its expressions and writes.\<close>

lemma active_build_evaluates:
  "counter (cpp11_log False Info ''net'' [increment, yields ''x''] example_counting) = 1 \<and>
   length (clog (cpp11_log False Info ''net'' [increment, yields ''x''] example_counting)) = 2"
  by (simp add: cpp11_log_def cpp11_Logger_statement_line increment_def yields_def
      example_counting_def)

subsection \<open>C7: the timestamp\<close>

text \<open>
  Claim C7. The timestamp of a record is the local wall-clock time in the form
  \<^verbatim>\<open>HH:MM:SS.mmm\<close>: hour, minute and second with two digits each and the milliseconds
  with exactly three, all padded with zeros, twelve characters in all. It holds for a
  system clock at or after its epoch and the broken-down time that \<^verbatim>\<open>localtime_r\<close>
  delivers. At five milliseconds past the second the field reads \<^verbatim>\<open>005\<close>.
\<close>

theorem C7_timestamp_format:
  assumes "0 \<le> system_clock_now w"
      and "t = localtime_r w (system_clock_now w div 1000000000)"
      and "valid_tm t"
  shows "cpp11_timestamp w =
           HH_MM_SS_mmm (nat (tm_hour t)) (nat (tm_min t)) (nat (tm_sec t))
             (nat (system_clock_now w div 1000000 mod 1000)) \<and>
         cpp23_timestamp w =
           HH_MM_SS_mmm (nat (tm_hour t)) (nat (tm_min t)) (nat (tm_sec t))
             (nat (system_clock_now w div 1000000 mod 1000)) \<and>
         length (cpp11_timestamp w) = 12 \<and> length (cpp23_timestamp w) = 12"
proof -
  have "cpp11_timestamp w =
          HH_MM_SS_mmm (nat (tm_hour t)) (nat (tm_min t)) (nat (tm_sec t))
            (nat (system_clock_now w div 1000000 mod 1000))"
    using assms by (intro cpp11_timestamp_valid) (simp_all add: valid_tm_def)
  then show ?thesis
    by (simp add: cpp23_timestamp_eq HH_MM_SS_mmm_def two_digits_def three_digits_def)
qed

theorem C7_timestamp_format_witness:
  "0 \<le> system_clock_now example_world \<and>
   valid_tm (localtime_r example_world (system_clock_now example_world div 1000000000)) \<and>
   cpp11_timestamp example_world = ''22:14:05.005'' \<and>
   cpp23_timestamp example_world = ''22:14:05.005'' \<and>
   HH_MM_SS_mmm 22 14 5 5 = ''22:14:05.005''"
proof -
  have a: "0 \<le> system_clock_now example_world"
    by (simp add: example_world_def)
  have b: "valid_tm (localtime_r example_world (system_clock_now example_world div 1000000000))"
    by (simp add: example_world_def utc_def valid_tm_def)
  have c: "HH_MM_SS_mmm 22 14 5 5 = ''22:14:05.005''"
    by (simp add: HH_MM_SS_mmm_def two_digits_def three_digits_def digit_char_def)
  have d: "localtime_r example_world (system_clock_now example_world div 1000000000) =
           \<lparr>tm_sec = 5, tm_min = 14, tm_hour = 22\<rparr>"
    by (simp add: example_world_def utc_def)
  have e: "system_clock_now example_world div 1000000 mod 1000 = 5"
    by (simp add: example_world_def)
  show ?thesis
    using a b c C7_timestamp_format [OF a refl b]
    by (simp add: d e)
qed

subsection \<open>C8: failure inside the destructor\<close>




subsection \<open>C9: the two headers compared\<close>

text \<open>
  Claim C9, as stated, has the two headers observationally equivalent. They differ
  where \<^verbatim>\<open>logger_cpp11.hpp\<close> keeps \<^verbatim>\<open>std::string\<close>s and \<^verbatim>\<open>logger_cpp23.hpp\<close> keeps
  \<^verbatim>\<open>std::string_view\<close>s. Given the same tag \<^verbatim>\<open>load\<close>, file \<^verbatim>\<open>main.cpp\<close> and line 42:
  \<^item> a block that constructs a timer and move-constructs a second one from it ends with
    the record of the object moved from, which shows an empty tag and an empty file
    under \<^verbatim>\<open>logger_cpp11.hpp\<close> (the usual state of a \<^verbatim>\<open>std::string\<close> moved from) and
    the tag and the file that were given under \<^verbatim>\<open>logger_cpp23.hpp\<close>;
  \<^item> a block whose rest overwrites the first character of the storage of the tag ends
    with a record for \<^verbatim>\<open>load\<close> under \<^verbatim>\<open>logger_cpp11.hpp\<close>, which copied the tag, and
    for \<^verbatim>\<open>Xoad\<close> under \<^verbatim>\<open>logger_cpp23.hpp\<close>, which reads it again.
\<close>

theorem C9_counterexample:
  "viewed example_world example_tag = ''load'' \<and>
   viewed example_world (location_file_name example_location) = ''main.cpp'' \<and>
   location_line example_location = 42 \<and>
   drop 4 (clog (cpp11_block_with_move False [] [] ''load'' ''main.cpp'' 42 example_world)) =
     [''[22:14:05.005]['' @ ESC # ''[1;36mPROFILING'' @ ESC # ''[0m] FINISH  (0.000ms) @ :42'' @
      ESC # ''[0m'', [CHR 0x0A]] \<and>
   drop 4 (clog (cpp23_block_with_move False example_tag example_location example_world)) =
     [''[22:14:05.005]['' @ ESC # ''[1;36mPROFILING'' @ ESC #
      ''[0m] FINISH load (0.000ms) @ main.cpp:42'' @ ESC # ''[0m'', [CHR 0x0A]] \<and>
   drop 2 (clog (snd (cpp11_ScopeLogger_block False ''load'' ''main.cpp'' 42 rest_overwrites
                        example_world))) =
     [''[22:14:05.007]['' @ ESC # ''[1;36mPROFILING'' @ ESC #
      ''[0m] FINISH load (2.500ms) @ main.cpp:42'' @ ESC # ''[0m'', [CHR 0x0A]] \<and>
   drop 2 (clog (snd (cpp23_ScopeLogger_block False example_tag example_location rest_overwrites
                        example_world))) =
     [''[22:14:05.007]['' @ ESC # ''[1;36mPROFILING'' @ ESC #
      ''[0m] FINISH Xoad (2.500ms) @ main.cpp:42'' @ ESC # ''[0m'', [CHR 0x0A]]"
proof -
  have b: "clog example_world = []"
    "uncaught_exceptions example_world = 0"
    "uncaught_exceptions example_world_later = 0"
    "steady_clock_now example_world_later = 1002500000"
    "steady_clock_now example_world = 1000000000"
    by (simp_all add: example_world_later_def example_world_def)
  have c: "show_int 42 = ''42''" "show_nat 42 = ''42''"
    by code_simp+
  have d: "location_file_name example_location = example_file_name"
    "location_line example_location = 42"
    by (simp_all add: example_location_def)
  have g: "clog (snd (cpp11_ScopeLogger_block False ''load'' ''main.cpp'' 42 rest_overwrites
        example_world)) =
        [''[22:14:05.005]['' @ ESC # ''[1;36mPROFILING'' @ ESC #
         ''[0m] START load @ main.cpp:42'' @ ESC # ''[0m'', [CHR 0x0A],
         ''[22:14:05.007]['' @ ESC # ''[1;36mPROFILING'' @ ESC #
         ''[0m] FINISH load (2.500ms) @ main.cpp:42'' @ ESC # ''[0m'', [CHR 0x0A]]"
    unfolding cpp11_ScopeLogger_block_def cpp11_ScopeLogger_ctor_active
    by (simp add: rest_overwrites_example destroy_cpp11 b c fixed_example
        example_timestamp example_later_timestamp
        profile_record_def header_def start_message_def leave_message_def signed_divide_int_def)
  have h: "clog (snd (cpp23_ScopeLogger_block False example_tag example_location rest_overwrites
        example_world)) =
        [''[22:14:05.005]['' @ ESC # ''[1;36mPROFILING'' @ ESC #
         ''[0m] START load @ main.cpp:42'' @ ESC # ''[0m'', [CHR 0x0A],
         ''[22:14:05.007]['' @ ESC # ''[1;36mPROFILING'' @ ESC #
         ''[0m] FINISH Xoad (2.500ms) @ main.cpp:42'' @ ESC # ''[0m'', [CHR 0x0A]]"
    unfolding cpp23_ScopeLogger_block_def cpp23_ScopeLogger_ctor_active
    by (simp add: rest_overwrites_example destroy_cpp23 b c d fixed_example example_views
        example_views_overwritten example_timestamp example_later_timestamp cpp23_timestamp_eq
        profile_record_def header_def start_message_def leave_message_def signed_divide_int_def)
  show ?thesis
    unfolding g h
    by (simp add: cpp23_block_with_move_active cpp11_block_with_move_active
        b c d example_timestamp cpp23_timestamp_eq fixed_zero example_views
        profile_record_def header_def start_message_def leave_message_def)
qed

text \<open>
  Claim C9, amended. \<^verbatim>\<open>logger_cpp11.hpp\<close> and \<^verbatim>\<open>logger_cpp23.hpp\<close> agree on \<open>Logger\<close>:
  \<open>levelLabel\<close> and \<open>colorCode\<close> return the same strings for every value, and the
  constructor, the append operator, the destructor and the log macros produce the same
  output from the same inputs and clock readings. \<^verbatim>\<open>std::uncaught_exception()\<close> is true
  exactly when \<^verbatim>\<open>std::uncaught_exceptions()\<close> is not zero. On \<open>ScopeLogger\<close> they agree
  as far as the views of \<^verbatim>\<open>logger_cpp23.hpp\<close> show the characters that
  \<^verbatim>\<open>logger_cpp11.hpp\<close> copied: the \<^verbatim>\<open>START\<close> records are the same when the strings given
  to one constructor are what the views given to the other show; the leave records are
  the same when the strings that one destructor holds are what the views of the other
  show at that time, for the same line, start instant, clock reading and unwinding
  state, also for an object made by the move constructor; and a block with a timer, or
  with the macro \<^verbatim>\<open>log_profile\<close>, behaves the same in both builds when its rest leaves
  the viewed characters as they were. The headers differ when the viewed storage
  changes during the life of the timer and for an object that has been moved from.
\<close>

theorem C9_headers_agree:
  assumes "viewed (snd (rest (snd (cpp23_ScopeLogger_ctor NDEBUG tag_view
             \<lparr>location_file_name = file_view, location_line = n\<rparr> w)))) tag_view =
           viewed w tag_view"
    and "viewed (snd (rest (snd (cpp23_ScopeLogger_ctor NDEBUG tag_view
             \<lparr>location_file_name = file_view, location_line = n\<rparr> w)))) file_view =
           viewed w file_view"
  shows
    "cpp11_levelLabel level = cpp23_levelLabel level \<and>
     cpp11_colorCode level = cpp23_colorCode level \<and>
     cpp11_timestamp w = cpp23_timestamp w \<and>
     cpp11_log_profile NDEBUG (viewed w tag_view) (viewed w file_view) (int n) rest w =
       cpp23_log_profile NDEBUG tag_view
         \<lparr>location_file_name = file_view, location_line = n\<rparr> rest w \<and>
     cpp11_ScopeLogger_block NDEBUG (viewed w tag_view) (viewed w file_view) (int n) rest w =
       cpp23_ScopeLogger_block NDEBUG tag_view
         \<lparr>location_file_name = file_view, location_line = n\<rparr> rest w \<and>
     cpp11_Logger_ctor w level category = cpp23_Logger_ctor w level category \<and>
     cpp11_Logger_shl render this v = cpp23_Logger_shl render this v \<and>
     cpp11_Logger_dtor this w = cpp23_Logger_dtor this w \<and>
     cpp11_log NDEBUG l category es w = cpp23_log NDEBUG l category es w \<and>
     snd (cpp11_ScopeLogger_ctor NDEBUG (viewed w tag_view) (viewed w file_view) (int n) w) =
       snd (cpp23_ScopeLogger_ctor NDEBUG tag_view
              \<lparr>location_file_name = file_view, location_line = n\<rparr> w) \<and>
     cpp11_ScopeLogger_dtor NDEBUG
       \<lparr>m_tag = viewed w tag_view, m_file_name = viewed w file_view, m_line = int n,
        m_start = s\<rparr> w =
       cpp23_ScopeLogger_dtor NDEBUG
         \<lparr>m_tag = tag_view, m_file_name = file_view, m_line = n, m_start = s\<rparr> w \<and>
     cpp11_ScopeLogger_dtor NDEBUG
       (fst (cpp11_ScopeLogger_move_ctor tag' file'
               \<lparr>m_tag = viewed w tag_view, m_file_name = viewed w file_view, m_line = int n,
                m_start = s\<rparr>)) w =
       cpp23_ScopeLogger_dtor NDEBUG
         (fst (cpp23_ScopeLogger_move_ctor
                 \<lparr>m_tag = tag_view, m_file_name = file_view, m_line = n, m_start = s\<rparr>)) w \<and>
     uncaught_exception w = (uncaught_exceptions w \<noteq> 0)"
proof -
  have a: "cpp23_ScopeLogger_block NDEBUG tag_view
      \<lparr>location_file_name = file_view, location_line = n\<rparr> rest w =
    cpp11_ScopeLogger_block NDEBUG (viewed w tag_view) (viewed w file_view) (int n) rest w"
    using assms by (rule cpp23_ScopeLogger_block_eq)
  have b: "cpp23_log_profile NDEBUG tag_view
      \<lparr>location_file_name = file_view, location_line = n\<rparr> rest w =
    cpp11_log_profile NDEBUG (viewed w tag_view) (viewed w file_view) (int n) rest w"
    unfolding cpp11_log_profile_def cpp23_log_profile_def a by simp
  show ?thesis
    by (simp add: a b cpp23_levelLabel_eq cpp23_colorCode_eq cpp23_timestamp_eq cpp23_Logger_ctor_eq
        cpp23_Logger_shl_eq cpp23_Logger_dtor_eq cpp23_log_eq cpp23_ScopeLogger_ctor_eq
        cpp23_ScopeLogger_dtor_eq cpp11_ScopeLogger_move_ctor_def cpp23_ScopeLogger_move_ctor_def
        uncaught_exception_def)
qed

theorem C9_headers_agree_witness:
  "viewed (snd (rest_completes (snd (cpp23_ScopeLogger_ctor False example_tag
      \<lparr>location_file_name = example_file_name, location_line = 42\<rparr> example_world))))
      example_tag = viewed example_world example_tag \<and>
   viewed (snd (rest_completes (snd (cpp23_ScopeLogger_ctor False example_tag
      \<lparr>location_file_name = example_file_name, location_line = 42\<rparr> example_world))))
      example_file_name = viewed example_world example_file_name \<and>
   cpp23_levelLabel 3 = '' NOTICE  '' \<and> cpp23_colorCode 42 = ESC # ''[0m'' \<and>
   cpp23_timestamp example_world = ''22:14:05.005'' \<and>
   cpp23_log_profile False example_tag
     \<lparr>location_file_name = example_file_name, location_line = 42\<rparr> rest_completes example_world =
     (Inr (),
      example_world_later\<lparr>clog :=
        [''[22:14:05.005]['' @ ESC # ''[1;36mPROFILING'' @ ESC #
         ''[0m] START load @ main.cpp:42'' @ ESC # ''[0m'', [CHR 0x0A],
         ''[22:14:05.007]['' @ ESC # ''[1;36mPROFILING'' @ ESC #
         ''[0m] FINISH load (2.500ms) @ main.cpp:42'' @ ESC # ''[0m'', [CHR 0x0A]]\<rparr>)"
proof -
  have a: "cpp11_levelLabel 3 = '' NOTICE  ''" "cpp11_colorCode 42 = ESC # ''[0m''"
    by (simp_all add: cpp11_levelLabel_def cpp11_colorCode_def)
  have b: "clog example_world = []" "uncaught_exceptions example_world_later = 0"
    "steady_clock_now example_world_later = 1002500000"
    "steady_clock_now example_world = 1000000000"
    by (simp_all add: example_world_later_def example_world_def)
  have c: "show_int 42 = ''42''"
    by code_simp
  have f: "rest_completes (example_world\<lparr>clog := c\<rparr>) = (Inr (), example_world_later\<lparr>clog := c\<rparr>)"
    for c
    by (simp add: rest_completes_def elapse_example)
  have h1: "viewed (snd (rest_completes (snd (cpp23_ScopeLogger_ctor False example_tag
      \<lparr>location_file_name = example_file_name, location_line = 42\<rparr> example_world))))
      example_tag = viewed example_world example_tag"
    by (simp add: cpp23_ScopeLogger_ctor_active f example_views)
  have h2: "viewed (snd (rest_completes (snd (cpp23_ScopeLogger_ctor False example_tag
      \<lparr>location_file_name = example_file_name, location_line = 42\<rparr> example_world))))
      example_file_name = viewed example_world example_file_name"
    by (simp add: cpp23_ScopeLogger_ctor_active f example_views)
  note t = C9_headers_agree [where rest = rest_completes and NDEBUG = False and
      tag_view = example_tag and file_view = example_file_name and n = 42 and w = example_world,
      OF h1 h2]
  have g: "cpp11_levelLabel 3 = cpp23_levelLabel 3"
    by (rule t [THEN conjunct1])
  have h: "cpp11_colorCode 42 = cpp23_colorCode 42"
    by (rule t [THEN conjunct2, THEN conjunct1])
  have i: "cpp11_timestamp example_world = cpp23_timestamp example_world"
    by (rule t [THEN conjunct2, THEN conjunct2, THEN conjunct1])
  have j: "cpp11_log_profile False (viewed example_world example_tag)
      (viewed example_world example_file_name) (int 42) rest_completes example_world =
    cpp23_log_profile False example_tag
      \<lparr>location_file_name = example_file_name, location_line = 42\<rparr> rest_completes example_world"
    by (rule t [THEN conjunct2, THEN conjunct2, THEN conjunct2, THEN conjunct1])
  have k: "cpp11_log_profile False ''load'' ''main.cpp'' 42 rest_completes example_world =
     (Inr (),
      example_world_later\<lparr>clog :=
        [''[22:14:05.005]['' @ ESC # ''[1;36mPROFILING'' @ ESC #
         ''[0m] START load @ main.cpp:42'' @ ESC # ''[0m'', [CHR 0x0A],
         ''[22:14:05.007]['' @ ESC # ''[1;36mPROFILING'' @ ESC #
         ''[0m] FINISH load (2.500ms) @ main.cpp:42'' @ ESC # ''[0m'', [CHR 0x0A]]\<rparr>)"
    unfolding cpp11_log_profile_def cpp11_ScopeLogger_block_def cpp11_ScopeLogger_ctor_active
    by (simp add: f destroy_cpp11 b c fixed_example example_timestamp example_later_timestamp
        profile_record_def header_def start_message_def leave_message_def signed_divide_int_def)
  show ?thesis
    using a example_timestamp k h1 h2 unfolding g h i j [unfolded example_views, simplified] by simp
qed

subsection \<open>C10: values outside the enumeration\<close>

text \<open>
  Claim C10. For a value of the enumeration type that none of the ten enumerators
  names, \<open>levelLabel\<close> returns the nine characters \<^verbatim>\<open> UNKNOWN \<close> and \<open>colorCode\<close>
  returns the reset sequence, and the constructor of \<open>Logger\<close> renders its header with
  them, in both headers.
\<close>

theorem C10_unnamed_level:
  assumes "level \<notin> range Level_value"
  shows "cpp11_levelLabel level = '' UNKNOWN '' \<and> length (cpp11_levelLabel level) = 9 \<and>
         cpp11_colorCode level = ESC # ''[0m'' \<and>
         m_stream (cpp11_Logger_ctor w level category) =
           header (cpp11_timestamp w) (ESC # ''[0m'') '' UNKNOWN '' category \<and>
         cpp23_levelLabel level = '' UNKNOWN '' \<and> length (cpp23_levelLabel level) = 9 \<and>
         cpp23_colorCode level = ESC # ''[0m'' \<and>
         m_stream (cpp23_Logger_ctor w level category) =
           header (cpp23_timestamp w) (ESC # ''[0m'') '' UNKNOWN '' category"
  using unnamed_level [OF assms]
  by (simp add: cpp23_levelLabel_eq cpp23_colorCode_eq cpp23_Logger_ctor_eq cpp23_timestamp_eq
      cpp11_Logger_ctor_header)

theorem C10_unnamed_level_witness:
  "42 \<notin> range Level_value \<and> cpp11_levelLabel 42 = '' UNKNOWN '' \<and>
   cpp23_colorCode (- 1) = ESC # ''[0m'' \<and>
   m_stream (cpp11_Logger_ctor example_world 42 ''net'') =
     ''[22:14:05.005]['' @ ESC # ''[0m UNKNOWN '' @ ESC # ''[0m][net] ''"
proof -
  have a: "(42::int) \<notin> range Level_value" and b: "(- 1::int) \<notin> range Level_value"
    by (simp_all add: unnamed_value)
  show ?thesis
    using a C10_unnamed_level [OF a, of example_world "''net''"] C10_unnamed_level [OF b, of example_world "''net''"]
    by (simp add: header_def example_timestamp)
qed

end
